theory Spec2Isabelle
  imports Complex_Main "HOL-Library.Multiset"
begin

section \<open>The store\<close>

text \<open>
  The handlers of \<^verbatim>\<open>report_controller.js\<close>, \<^verbatim>\<open>admin_controller.js\<close> and
  \<^verbatim>\<open>contractor_controller.js\<close> talk to a MySQL database whose tables are created by the
  initialisation script. A table is a list of rows, a row a record of the columns that the
  handlers below read or write. Conventions:
  \<^item> the server runs in strict SQL mode: a value that does not fit its column (a string that
    is no member of an \<^verbatim>\<open>ENUM\<close>, \<^verbatim>\<open>NULL\<close> for a \<^verbatim>\<open>NOT NULL\<close> column, a number outside a
    \<^verbatim>\<open>DECIMAL\<close> range) makes the statement fail;
  \<^item> strings are compared exactly; the lengths of \<^verbatim>\<open>VARCHAR\<close> columns and the foreign key
    from \<^verbatim>\<open>reports.user_id\<close> are not checked;
  \<^item> \<^verbatim>\<open>AUTO_INCREMENT\<close> gives one more than the largest id of the table;
  \<^item> a point in time is a natural number; \<^verbatim>\<open>NOW()\<close> and \<^verbatim>\<open>new Date()\<close> are the parameter
    \<open>now\<close> of a handler;
  \<^item> requests are handled one at a time.
\<close>

datatype error =
    ER_DUP_ENTRY
  | ER_BAD_NULL_ERROR
  | ER_WARN_DATA_OUT_OF_RANGE
  | WARN_DATA_TRUNCATED
  | ER_BAD_FIELD_ERROR
  | ER_NO_REFERENCED_ROW_2
  | ER_TRUNCATED_WRONG_VALUE
  | ConnectionLost
  | TypeError
  | RangeError

record users_row =
  u_id :: nat
  u_device_id :: "string option"

record reports_row =
  r_id :: nat
  r_report_id :: string
  r_user_id :: "nat option"
  r_device_id :: string
  r_reported_at :: nat
  r_total_potholes :: nat
  r_total_patchy_roads :: nat
  r_health_score :: int
  r_status :: string

record pothole_detections_row =
  pd_id :: nat
  pd_report_id :: nat
  pd_location_id :: "string option"
  pd_latitude :: rat
  pd_longitude :: rat
  pd_severity :: string
  pd_timestamp :: nat
  pd_synced :: bool

record road_anomalies_row =
  ra_id :: nat
  ra_report_id :: nat
  ra_location_id :: "string option"
  ra_start_latitude :: rat
  ra_start_longitude :: rat
  ra_end_latitude :: "rat option"
  ra_end_longitude :: "rat option"
  ra_severity :: string
  ra_start_timestamp :: nat
  ra_end_timestamp :: nat
  ra_duration_seconds :: "int option"

record aggregated_locations_row =
  al_id :: nat
  al_grid_id :: string
  al_latitude :: string
  al_longitude :: string
  al_total_potholes :: nat
  al_total_patchy :: nat
  al_highest_severity :: string
  al_report_count :: nat
  al_first_reported_at :: "nat option"
  al_last_reported_at :: "nat option"
  al_status :: string
  al_verified_at :: "nat option"

record contractors_row =
  c_id :: nat
  c_user_id :: "nat option"
  c_is_active :: bool

record work_assignments_row =
  wa_id :: nat
  wa_aggregated_location_id :: nat
  wa_contractor_id :: nat
  wa_assigned_by :: "nat option"
  wa_due_date :: "nat option"
  wa_status :: string
  wa_completed_at :: "nat option"
  wa_admin_notes :: "string option"
  wa_notes :: "string option"

record db =
  users :: "users_row list"
  reports :: "reports_row list"
  pothole_detections :: "pothole_detections_row list"
  road_anomalies :: "road_anomalies_row list"
  aggregated_locations :: "aggregated_locations_row list"
  contractors :: "contractors_row list"
  work_assignments :: "work_assignments_row list"

text \<open>The column names of \<^verbatim>\<open>work_assignments\<close>, as \<^verbatim>\<open>CREATE TABLE\<close> lists them.\<close>

definition work_assignments_columns :: "string list" where
  "work_assignments_columns =
     [''id'', ''aggregated_location_id'', ''contractor_id'', ''assigned_by'', ''assigned_at'',
      ''due_date'', ''status'', ''completed_at'', ''admin_notes'', ''notes'']"

definition severity_enum :: "string list" where
  "severity_enum = [''Low'', ''Medium'', ''High'']"

definition next_id :: "nat list \<Rightarrow> nat" where
  "next_id ids = Suc (fold max ids 0)"

subsection \<open>Numbers and dates of a request\<close>

text \<open>
  A coordinate of a request is \<open>Some x\<close>, \<open>x\<close> the exact value of the number sent, or
  \<open>None\<close> when the field is absent or no number; \<^verbatim>\<open>parseFloat\<close> of the first is the number
  itself and of the second \<^verbatim>\<open>NaN\<close>. \<open>fixed4 x\<close> is \<^verbatim>\<open>x.toFixed(4)\<close> as ECMAScript defines it
  for magnitudes below \<open>10^21\<close>: the sign, then the integer \<open>n\<close> nearest to \<open>\<bar>x\<bar> * 10^4\<close>
  (the larger of two) in decimal digits, padded to five digits, with the point before the
  last four. From \<open>10^21\<close> on \<^verbatim>\<open>toFixed\<close> answers in exponent notation, which \<open>fixed4\<close> does
  not follow. \<open>submitReport\<close> computes a key only for coordinates that the insert of the
  detection has accepted, and that insert refuses every magnitude from \<open>10^4\<close> on.
\<close>

definition digit_char :: "nat \<Rightarrow> char" where
  "digit_char d = ''0123456789'' ! d"

fun digits :: "nat \<Rightarrow> string" where
  "digits n = (if n < 10 then [digit_char n] else digits (n div 10) @ [digit_char (n mod 10)])"

declare digits.simps [simp del]

definition fixed4 :: "rat \<Rightarrow> string" where
  "fixed4 x =
     (let s = (if x < 0 then ''-'' else '''');
          n = nat \<lfloor>\<bar>x\<bar> * 10000 + 1 / 2\<rfloor>;
          m = digits n;
          k = length m;
          m' = (if k \<le> 4 then replicate (5 - k) (CHR ''0'') @ m else m);
          k' = length m'
      in s @ take (k' - 4) m' @ ''.'' @ drop (k' - 4) m')"

definition toFixed4 :: "rat option \<Rightarrow> string" where
  "toFixed4 v = (case v of None \<Rightarrow> ''NaN'' | Some x \<Rightarrow> fixed4 x)"

text \<open>The number a \<^verbatim>\<open>DECIMAL(10, f)\<close> column keeps of \<open>x\<close>, scaled by \<open>10^f\<close>.\<close>

definition round_dp :: "nat \<Rightarrow> rat \<Rightarrow> int" where
  "round_dp f x = (if x < 0 then - \<lfloor>- x * 10 ^ f + 1 / 2\<rfloor> else \<lfloor>x * 10 ^ f + 1 / 2\<rfloor>)"

definition decimal_10_6 :: "rat option \<Rightarrow> error + rat" where
  "decimal_10_6 v =
     (case v of
        None \<Rightarrow> Inl ER_BAD_NULL_ERROR
      | Some x \<Rightarrow>
          if \<bar>round_dp 6 x\<bar> < 10 ^ 10 then Inr (of_int (round_dp 6 x) / 10 ^ 6)
          else Inl ER_WARN_DATA_OUT_OF_RANGE)"

text \<open>
  A text written by \<open>toFixed4\<close> fits \<^verbatim>\<open>DECIMAL(10, 4)\<close> when it is a number of at most ten
  digits.
\<close>

definition decimal_10_4_ok :: "string \<Rightarrow> bool" where
  "decimal_10_4_ok s =
     (s \<noteq> ''NaN'' \<and> length (filter (\<lambda>ch. ch \<noteq> CHR ''-'' \<and> ch \<noteq> CHR ''.'') s) \<le> 10)"

text \<open>
  A date field of a request: absent (or otherwise falsy), a text that \<^verbatim>\<open>new Date\<close> cannot
  read, or a point in time. \<^verbatim>\<open>toISOString\<close> throws a \<^verbatim>\<open>RangeError\<close> on an invalid date.
\<close>

datatype jsdate = NoDate | InvalidDate | Date nat

definition toMySQLDatetime :: "nat \<Rightarrow> jsdate \<Rightarrow> error + nat" where
  "toMySQLDatetime now isoString =
     (case isoString of
        NoDate \<Rightarrow> Inr now
      | InvalidDate \<Rightarrow> Inl RangeError
      | Date t \<Rightarrow> Inr t)"

text \<open>\<^verbatim>\<open>a || b\<close> on numbers (\<open>0\<close> and an absent field are falsy) and on texts.\<close>

definition or_number :: "rat option \<Rightarrow> rat option \<Rightarrow> rat option" where
  "or_number a b = (case a of None \<Rightarrow> b | Some x \<Rightarrow> if x = 0 then b else a)"

definition truthy :: "string option \<Rightarrow> bool" where
  "truthy s = (case s of None \<Rightarrow> False | Some t \<Rightarrow> t \<noteq> [])"

definition or_text :: "string option \<Rightarrow> string \<Rightarrow> string" where
  "or_text s dflt = (if truthy s then the s else dflt)"

definition or_null :: "string option \<Rightarrow> string option" where
  "or_null s = (if truthy s then s else None)"

definition truthy_id :: "nat option \<Rightarrow> bool" where
  "truthy_id i = (case i of None \<Rightarrow> False | Some n \<Rightarrow> n \<noteq> 0)"

subsection \<open>Connections and transactions\<close>

text \<open>
  A connection holds the committed store, its own view of it and whether a transaction is
  open. A statement sent outside a transaction commits at once. The parameter \<open>flt\<close> of
  \<open>query\<close> says which statements of a request (counted from 0) the server fails to carry
  out for a reason of its own; such a statement changes nothing.
\<close>

datatype event = GetConnection | BeginTransaction | Statement | Commit | Rollback | Release

record conn =
  committed :: db
  working :: db
  in_tx :: bool
  trace :: "event list"

type_synonym 'a result = "(error \<times> conn) + ('a \<times> conn)"

definition getConnection :: "db \<Rightarrow> conn" where
  "getConnection d = \<lparr>committed = d, working = d, in_tx = False, trace = [GetConnection]\<rparr>"

definition beginTransaction :: "conn \<Rightarrow> conn" where
  "beginTransaction c = c\<lparr>in_tx := True, trace := trace c @ [BeginTransaction]\<rparr>"

definition commit :: "conn \<Rightarrow> conn" where
  "commit c = c\<lparr>committed := working c, in_tx := False, trace := trace c @ [Commit]\<rparr>"

definition rollback :: "conn \<Rightarrow> conn" where
  "rollback c = c\<lparr>working := committed c, in_tx := False, trace := trace c @ [Rollback]\<rparr>"

definition release :: "conn \<Rightarrow> conn" where
  "release c = c\<lparr>trace := trace c @ [Release]\<rparr>"

definition issued :: "conn \<Rightarrow> nat" where
  "issued c = length (filter (\<lambda>e. e = Statement) (trace c))"

definition query :: "(nat \<Rightarrow> bool) \<Rightarrow> (db \<Rightarrow> error + 'a \<times> db) \<Rightarrow> conn \<Rightarrow> 'a result" where
  "query flt stmt c =
     (let c' = c\<lparr>trace := trace c @ [Statement]\<rparr> in
      if flt (issued c) then Inl (ConnectionLost, c')
      else case stmt (working c) of
             Inl e \<Rightarrow> Inl (e, c')
           | Inr (r, d) \<Rightarrow>
               Inr (r, if in_tx c then c'\<lparr>working := d\<rparr> else c'\<lparr>working := d, committed := d\<rparr>))"

text \<open>\<^verbatim>\<open>db.promise().query\<close>: a statement on a connection of the pool, outside a transaction.\<close>

definition pool :: "db \<Rightarrow> conn" where
  "pool d = \<lparr>committed = d, working = d, in_tx = False, trace = []\<rparr>"

subsection \<open>Responses\<close>

datatype payload =
    NoPayload
  | ErrorText string
  | ErrorCause error
  | SubmitData string nat nat nat int string
  | AssignmentId nat
  | AssignmentIds "nat list"
  | VerifyFlags bool bool
  | BatchCounts nat nat

record response =
  code :: nat
  message :: string
  payload :: payload

definition respond :: "nat \<Rightarrow> string \<Rightarrow> payload \<Rightarrow> response" where
  "respond st msg p = \<lparr>code = st, message = msg, payload = p\<rparr>"

section \<open>Report ingestion\<close>

subsection \<open>Statements\<close>

definition select_users_by_device :: "string \<Rightarrow> db \<Rightarrow> error + users_row list \<times> db" where
  "select_users_by_device device_id d =
     Inr (filter (\<lambda>u. u_device_id u = Some device_id) (users d), d)"

definition insert_reports ::
  "string \<Rightarrow> nat option \<Rightarrow> string \<Rightarrow> nat \<Rightarrow> nat \<Rightarrow> nat \<Rightarrow> int \<Rightarrow> db \<Rightarrow> error + nat \<times> db" where
  "insert_reports report_id userId device_id reported_at total_potholes total_patchy health d =
     (if report_id \<in> set (map r_report_id (reports d)) then Inl ER_DUP_ENTRY
      else
        let insertId = next_id (map r_id (reports d)) in
        Inr (insertId,
             d\<lparr>reports := reports d @
                [\<lparr>r_id = insertId, r_report_id = report_id, r_user_id = userId,
                  r_device_id = device_id, r_reported_at = reported_at,
                  r_total_potholes = total_potholes, r_total_patchy_roads = total_patchy,
                  r_health_score = health, r_status = ''pending''\<rparr>]\<rparr>))"

definition insert_pothole_detections ::
  "nat \<Rightarrow> string option \<Rightarrow> rat option \<Rightarrow> rat option \<Rightarrow> string \<Rightarrow> nat \<Rightarrow> db
     \<Rightarrow> error + unit \<times> db" where
  "insert_pothole_detections report location_id latitude longitude severity ts d =
     (case decimal_10_6 latitude of
        Inl e \<Rightarrow> Inl e
      | Inr la \<Rightarrow>
          (case decimal_10_6 longitude of
             Inl e \<Rightarrow> Inl e
           | Inr lo \<Rightarrow>
               if severity \<notin> set severity_enum then Inl WARN_DATA_TRUNCATED
               else
                 Inr ((),
                      d\<lparr>pothole_detections := pothole_detections d @
                         [\<lparr>pd_id = next_id (map pd_id (pothole_detections d)),
                           pd_report_id = report, pd_location_id = location_id,
                           pd_latitude = la, pd_longitude = lo, pd_severity = severity,
                           pd_timestamp = ts, pd_synced = True\<rparr>]\<rparr>)))"

definition decimal_10_6_null :: "rat option \<Rightarrow> error + rat option" where
  "decimal_10_6_null v =
     (case v of
        None \<Rightarrow> Inr None
      | Some x \<Rightarrow> (case decimal_10_6 (Some x) of Inl e \<Rightarrow> Inl e | Inr y \<Rightarrow> Inr (Some y)))"

definition insert_road_anomalies ::
  "nat \<Rightarrow> string option \<Rightarrow> rat option \<Rightarrow> rat option \<Rightarrow> rat option \<Rightarrow> rat option \<Rightarrow> string
     \<Rightarrow> nat \<Rightarrow> nat \<Rightarrow> int option \<Rightarrow> db \<Rightarrow> error + unit \<times> db" where
  "insert_road_anomalies report location_id start_latitude start_longitude end_latitude
       end_longitude severity start_ts end_ts duration d =
     (case decimal_10_6 start_latitude of
        Inl e \<Rightarrow> Inl e
      | Inr sla \<Rightarrow>
          (case decimal_10_6 start_longitude of
             Inl e \<Rightarrow> Inl e
           | Inr slo \<Rightarrow>
               (case decimal_10_6_null end_latitude of
                  Inl e \<Rightarrow> Inl e
                | Inr ela \<Rightarrow>
                    (case decimal_10_6_null end_longitude of
                       Inl e \<Rightarrow> Inl e
                     | Inr elo \<Rightarrow>
                         if severity \<notin> set severity_enum then Inl WARN_DATA_TRUNCATED
                         else
                           Inr ((),
                                d\<lparr>road_anomalies := road_anomalies d @
                                   [\<lparr>ra_id = next_id (map ra_id (road_anomalies d)),
                                     ra_report_id = report, ra_location_id = location_id,
                                     ra_start_latitude = sla, ra_start_longitude = slo,
                                     ra_end_latitude = ela, ra_end_longitude = elo,
                                     ra_severity = severity, ra_start_timestamp = start_ts,
                                     ra_end_timestamp = end_ts,
                                     ra_duration_seconds = duration\<rparr>]\<rparr>)))))"

definition select_aggregated_locations ::
  "string \<Rightarrow> db \<Rightarrow> error + aggregated_locations_row list \<times> db" where
  "select_aggregated_locations gridId d =
     Inr (filter (\<lambda>r. al_grid_id r = gridId) (aggregated_locations d), d)"

definition update_aggregated_locations ::
  "nat \<Rightarrow> nat \<Rightarrow> string \<Rightarrow> nat \<Rightarrow> string \<Rightarrow> db \<Rightarrow> error + unit \<times> db" where
  "update_aggregated_locations potholes patchy newHighest now gridId d =
     (if filter (\<lambda>r. al_grid_id r = gridId) (aggregated_locations d) \<noteq> []
         \<and> newHighest \<notin> set severity_enum
      then Inl WARN_DATA_TRUNCATED
      else
        Inr ((),
             d\<lparr>aggregated_locations :=
                 map (\<lambda>r. if al_grid_id r = gridId
                           then r\<lparr>al_total_potholes := al_total_potholes r + potholes,
                                  al_total_patchy := al_total_patchy r + patchy,
                                  al_highest_severity := newHighest,
                                  al_report_count := al_report_count r + 1,
                                  al_last_reported_at := Some now\<rparr>
                           else r)
                   (aggregated_locations d)\<rparr>))"

definition insert_aggregated_locations ::
  "string \<Rightarrow> string \<Rightarrow> string \<Rightarrow> nat \<Rightarrow> nat \<Rightarrow> string \<Rightarrow> nat \<Rightarrow> db \<Rightarrow> error + unit \<times> db" where
  "insert_aggregated_locations gridId lat lng potholes patchy severity now d =
     (if \<not> decimal_10_4_ok lat \<or> \<not> decimal_10_4_ok lng then Inl ER_WARN_DATA_OUT_OF_RANGE
      else if severity \<notin> set severity_enum then Inl WARN_DATA_TRUNCATED
      else if gridId \<in> set (map al_grid_id (aggregated_locations d)) then Inl ER_DUP_ENTRY
      else
        Inr ((),
             d\<lparr>aggregated_locations := aggregated_locations d @
                [\<lparr>al_id = next_id (map al_id (aggregated_locations d)),
                  al_grid_id = gridId, al_latitude = lat, al_longitude = lng,
                  al_total_potholes = potholes, al_total_patchy = patchy,
                  al_highest_severity = severity, al_report_count = 1,
                  al_first_reported_at = Some now, al_last_reported_at = Some now,
                  al_status = ''pending'', al_verified_at = None\<rparr>]\<rparr>))"

subsection \<open>The aggregation helper\<close>

record detection =
  d_latitude :: "rat option"
  d_longitude :: "rat option"
  d_severity :: "string option"

definition gridId_of :: "rat option \<Rightarrow> rat option \<Rightarrow> string" where
  "gridId_of latitude longitude = toFixed4 latitude @ ''_'' @ toFixed4 longitude"

definition severityOrder :: "string \<Rightarrow> nat option" where
  "severityOrder = map_of [(''Low'', 1), (''Medium'', 2), (''High'', 3)]"

text \<open>\<^verbatim>\<open>a > b\<close> where either side may be \<^verbatim>\<open>undefined\<close>: then the comparison is false.\<close>

definition js_gt :: "nat option \<Rightarrow> nat option \<Rightarrow> bool" where
  "js_gt a b = (case a of None \<Rightarrow> False | Some x \<Rightarrow> (case b of None \<Rightarrow> False | Some y \<Rightarrow> x > y))"

definition updateAggregatedLocation ::
  "(nat \<Rightarrow> bool) \<Rightarrow> nat \<Rightarrow> detection \<Rightarrow> string \<Rightarrow> conn \<Rightarrow> unit result" where
  "updateAggregatedLocation flt now data type c =
     (let lat = toFixed4 (d_latitude data);
          lng = toFixed4 (d_longitude data);
          gridId = lat @ ''_'' @ lng;
          severity = or_text (d_severity data) ''Medium''
      in case query flt (select_aggregated_locations gridId) c of
           Inl x \<Rightarrow> Inl x
         | Inr (existing, c1) \<Rightarrow>
             (case existing of
                current # _ \<Rightarrow>
                  let newHighest =
                        (if js_gt (severityOrder severity)
                              (severityOrder (al_highest_severity current))
                         then severity else al_highest_severity current)
                  in query flt
                       (update_aggregated_locations
                          (if type = ''pothole'' then 1 else 0)
                          (if type = ''patchy'' then 1 else 0)
                          newHighest now gridId) c1
              | [] \<Rightarrow>
                  query flt
                    (insert_aggregated_locations gridId lat lng
                       (if type = ''pothole'' then 1 else 0)
                       (if type = ''patchy'' then 1 else 0)
                       severity now) c1))"

subsection \<open>The handler\<close>

record anomaly =
  a_type :: string
  a_location_id :: "string option"
  a_latitude :: "rat option"
  a_longitude :: "rat option"
  a_start_latitude :: "rat option"
  a_start_longitude :: "rat option"
  a_end_latitude :: "rat option"
  a_end_longitude :: "rat option"
  a_severity :: "string option"
  a_timestamp :: jsdate
  a_start_timestamp :: jsdate
  a_end_timestamp :: jsdate
  a_duration_seconds :: "int option"

text \<open>
  The field \<^verbatim>\<open>anomalies\<close> of the body: falsy, a value without a \<^verbatim>\<open>filter\<close> method, or an
  array of entries.
\<close>

datatype anomalies_field = Absent | NotArray | Items "anomaly list"

record submit_request =
  sr_user :: "nat option"
  sr_report_id :: "string option"
  sr_device_id :: "string option"
  sr_reported_at :: jsdate
  sr_anomalies :: anomalies_field

fun insert_potholes :: "(nat \<Rightarrow> bool) \<Rightarrow> nat \<Rightarrow> nat \<Rightarrow> anomaly list \<Rightarrow> conn \<Rightarrow> unit result" where
  "insert_potholes flt now dbReportId [] c = Inr ((), c)"
| "insert_potholes flt now dbReportId (pothole # rest) c =
     (case toMySQLDatetime now (a_timestamp pothole) of
        Inl e \<Rightarrow> Inl (e, c)
      | Inr ts \<Rightarrow>
          (case query flt
                  (insert_pothole_detections dbReportId (a_location_id pothole)
                     (a_latitude pothole) (a_longitude pothole)
                     (or_text (a_severity pothole) ''Medium'') ts) c of
             Inl x \<Rightarrow> Inl x
           | Inr (_, c1) \<Rightarrow>
               (case updateAggregatedLocation flt now
                       \<lparr>d_latitude = a_latitude pothole, d_longitude = a_longitude pothole,
                        d_severity = a_severity pothole\<rparr> ''pothole'' c1 of
                  Inl x \<Rightarrow> Inl x
                | Inr (_, c2) \<Rightarrow> insert_potholes flt now dbReportId rest c2)))"

fun insert_patchyRoads :: "(nat \<Rightarrow> bool) \<Rightarrow> nat \<Rightarrow> nat \<Rightarrow> anomaly list \<Rightarrow> conn \<Rightarrow> unit result" where
  "insert_patchyRoads flt now dbReportId [] c = Inr ((), c)"
| "insert_patchyRoads flt now dbReportId (patchy # rest) c =
     (case toMySQLDatetime now (a_start_timestamp patchy) of
        Inl e \<Rightarrow> Inl (e, c)
      | Inr start_ts \<Rightarrow>
          (case toMySQLDatetime now (a_end_timestamp patchy) of
             Inl e \<Rightarrow> Inl (e, c)
           | Inr end_ts \<Rightarrow>
               (case query flt
                       (insert_road_anomalies dbReportId (a_location_id patchy)
                          (or_number (a_start_latitude patchy) (a_latitude patchy))
                          (or_number (a_start_longitude patchy) (a_longitude patchy))
                          (a_end_latitude patchy) (a_end_longitude patchy)
                          (or_text (a_severity patchy) ''Medium'') start_ts end_ts
                          (a_duration_seconds patchy)) c of
                  Inl x \<Rightarrow> Inl x
                | Inr (_, c1) \<Rightarrow>
                    (case updateAggregatedLocation flt now
                            \<lparr>d_latitude = or_number (a_start_latitude patchy) (a_latitude patchy),
                             d_longitude =
                               or_number (a_start_longitude patchy) (a_longitude patchy),
                             d_severity = a_severity patchy\<rparr> ''patchy'' c1 of
                       Inl x \<Rightarrow> Inl x
                     | Inr (_, c2) \<Rightarrow> insert_patchyRoads flt now dbReportId rest c2))))"

text \<open>
  The owner of the report: the caller when authenticated, else the first user registered
  with the device, else nobody.
\<close>

definition resolve_userId ::
  "(nat \<Rightarrow> bool) \<Rightarrow> nat option \<Rightarrow> string \<Rightarrow> conn \<Rightarrow> (nat option) result" where
  "resolve_userId flt user device_id c =
     (if truthy_id user then Inr (user, c)
      else case query flt (select_users_by_device device_id) c of
             Inl x \<Rightarrow> Inl x
           | Inr (rows, c') \<Rightarrow> Inr (case rows of [] \<Rightarrow> None | u # _ \<Rightarrow> Some (u_id u), c'))"

text \<open>
  The body of \<^verbatim>\<open>try\<close>, entered after \<^verbatim>\<open>beginTransaction\<close>: \<open>Inr\<close> is a response sent from
  inside it, \<open>Inl\<close> an exception on its way to \<^verbatim>\<open>catch\<close>.
\<close>

definition submitReport_try ::
  "(nat \<Rightarrow> bool) \<Rightarrow> nat \<Rightarrow> submit_request \<Rightarrow> conn \<Rightarrow> response result" where
  "submitReport_try flt now req c =
     (if \<not> truthy (sr_report_id req) \<or> \<not> truthy (sr_device_id req)
         \<or> sr_anomalies req = Absent
      then Inr (respond 400 ''Missing required fields: report_id, device_id, anomalies''
                  NoPayload, c)
      else
        let report_id = the (sr_report_id req); device_id = the (sr_device_id req) in
        case resolve_userId flt (sr_user req) device_id c of
          Inl x \<Rightarrow> Inl x
        | Inr (userId, c1) \<Rightarrow>
            (case sr_anomalies req of
               Absent \<Rightarrow> Inl (TypeError, c1)
             | NotArray \<Rightarrow> Inl (TypeError, c1)
             | Items anomalies \<Rightarrow>
                 let potholes = filter (\<lambda>a. a_type a = ''pothole'') anomalies;
                     patchyRoads = filter (\<lambda>a. a_type a = ''road_anomaly'') anomalies;
                     penalty = int (length potholes) * 15 + int (length patchyRoads) * 5;
                     healthScore = max 0 (100 - penalty)
                 in case toMySQLDatetime now (sr_reported_at req) of
                      Inl e \<Rightarrow> Inl (e, c1)
                    | Inr reported_at \<Rightarrow>
                        (case query flt
                                (insert_reports report_id userId device_id reported_at
                                   (length potholes) (length patchyRoads) healthScore) c1 of
                           Inl x \<Rightarrow> Inl x
                         | Inr (dbReportId, c2) \<Rightarrow>
                             (case insert_potholes flt now dbReportId potholes c2 of
                                Inl x \<Rightarrow> Inl x
                              | Inr (_, c3) \<Rightarrow>
                                  (case insert_patchyRoads flt now dbReportId patchyRoads c3 of
                                     Inl x \<Rightarrow> Inl x
                                   | Inr (_, c4) \<Rightarrow>
                                       Inr (respond 201 ''Report submitted successfully''
                                              (SubmitData report_id dbReportId (length potholes)
                                                 (length patchyRoads) healthScore ''pending''),
                                            commit c4))))))"

definition submitReport ::
  "(nat \<Rightarrow> bool) \<Rightarrow> nat \<Rightarrow> db \<Rightarrow> submit_request \<Rightarrow> response \<times> conn" where
  "submitReport flt now d req =
     (let connection = getConnection d in
      case submitReport_try flt now req (beginTransaction connection) of
        Inr (res, c) \<Rightarrow> (res, release c)
      | Inl (e, c) \<Rightarrow>
          (if e = ER_DUP_ENTRY
           then respond 409 ''Report already submitted'' (ErrorText ''Duplicate report_id'')
           else respond 500 ''Failed to submit report'' (ErrorCause e),
           release (rollback c)))"

section \<open>The work lifecycle\<close>

subsection \<open>Statements\<close>

text \<open>
  A statement on \<^verbatim>\<open>work_assignments\<close> names the columns it writes; one that the table does
  not have makes the statement fail. An \<^verbatim>\<open>UPDATE\<close> returns the number of rows its
  \<^verbatim>\<open>WHERE\<close> clause matches (the driver connects with \<^verbatim>\<open>FOUND_ROWS\<close>).
\<close>

definition update_work_assignments ::
  "string list \<Rightarrow> (work_assignments_row \<Rightarrow> bool) \<Rightarrow> (work_assignments_row \<Rightarrow> work_assignments_row)
     \<Rightarrow> db \<Rightarrow> error + nat \<times> db" where
  "update_work_assignments cols cond upd d =
     (if \<not> list_all (\<lambda>col. col \<in> set work_assignments_columns) cols then Inl ER_BAD_FIELD_ERROR
      else
        Inr (length (filter cond (work_assignments d)),
             d\<lparr>work_assignments := map (\<lambda>w. if cond w then upd w else w) (work_assignments d)\<rparr>))"

text \<open>A value sent for the \<^verbatim>\<open>DATE\<close> column \<^verbatim>\<open>due_date\<close>.\<close>

definition date_column :: "jsdate \<Rightarrow> error + nat option" where
  "date_column v =
     (case v of
        NoDate \<Rightarrow> Inr None
      | InvalidDate \<Rightarrow> Inl ER_TRUNCATED_WRONG_VALUE
      | Date t \<Rightarrow> Inr (Some t))"

definition insert_work_assignments ::
  "string list \<Rightarrow> nat option \<Rightarrow> nat option \<Rightarrow> nat option \<Rightarrow> jsdate \<Rightarrow> string option \<Rightarrow> db
     \<Rightarrow> error + nat \<times> db" where
  "insert_work_assignments cols locationId contractorId assigned_by due_date note d =
     (if \<not> list_all (\<lambda>col. col \<in> set work_assignments_columns) cols then Inl ER_BAD_FIELD_ERROR
      else
        case date_column due_date of
          Inl e \<Rightarrow> Inl e
        | Inr due \<Rightarrow>
            (case locationId of
               None \<Rightarrow> Inl ER_BAD_NULL_ERROR
             | Some l \<Rightarrow>
                 (case contractorId of
                    None \<Rightarrow> Inl ER_BAD_NULL_ERROR
                  | Some k \<Rightarrow>
                      if l \<notin> set (map al_id (aggregated_locations d))
                         \<or> k \<notin> set (map c_id (contractors d))
                         \<or> (case assigned_by of None \<Rightarrow> False
                             | Some u \<Rightarrow> u \<notin> set (map u_id (users d)))
                      then Inl ER_NO_REFERENCED_ROW_2
                      else
                        let insertId = next_id (map wa_id (work_assignments d)) in
                        Inr (insertId,
                             d\<lparr>work_assignments := work_assignments d @
                                [\<lparr>wa_id = insertId, wa_aggregated_location_id = l,
                                  wa_contractor_id = k, wa_assigned_by = assigned_by,
                                  wa_due_date = due, wa_status = ''assigned'',
                                  wa_completed_at = None, wa_admin_notes = None,
                                  wa_notes = note\<rparr>]\<rparr>))))"

definition update_aggregated_locations_where_id ::
  "(aggregated_locations_row \<Rightarrow> aggregated_locations_row) \<Rightarrow> nat option \<Rightarrow> db
     \<Rightarrow> error + nat \<times> db" where
  "update_aggregated_locations_where_id upd locationId d =
     Inr (length (filter (\<lambda>r. Some (al_id r) = locationId) (aggregated_locations d)),
          d\<lparr>aggregated_locations :=
              map (\<lambda>r. if Some (al_id r) = locationId then upd r else r)
                (aggregated_locations d)\<rparr>)"

definition select_location_by_id ::
  "nat option \<Rightarrow> db \<Rightarrow> error + aggregated_locations_row list \<times> db" where
  "select_location_by_id locationId d =
     Inr (filter (\<lambda>r. Some (al_id r) = locationId) (aggregated_locations d), d)"

definition select_active_contractor ::
  "nat option \<Rightarrow> db \<Rightarrow> error + contractors_row list \<times> db" where
  "select_active_contractor contractorId d =
     Inr (filter (\<lambda>k. Some (c_id k) = contractorId \<and> c_is_active k) (contractors d), d)"

definition select_open_assignments ::
  "nat option \<Rightarrow> db \<Rightarrow> error + work_assignments_row list \<times> db" where
  "select_open_assignments locationId d =
     Inr (filter (\<lambda>w. Some (wa_aggregated_location_id w) = locationId
                       \<and> wa_status w \<notin> {''completed'', ''verified''})
            (work_assignments d), d)"

definition select_contractors_by_user :: "nat \<Rightarrow> db \<Rightarrow> error + contractors_row list \<times> db" where
  "select_contractors_by_user user d =
     Inr (filter (\<lambda>k. c_user_id k = Some user) (contractors d), d)"

definition select_job :: "nat \<Rightarrow> nat \<Rightarrow> db \<Rightarrow> error + work_assignments_row list \<times> db" where
  "select_job jobId contractor d =
     Inr (filter (\<lambda>w. wa_id w = jobId \<and> wa_contractor_id w = contractor) (work_assignments d),
          d)"

subsection \<open>Assigning\<close>

record assign_request =
  as_user :: nat
  as_locationId :: "nat option"
  as_contractorId :: "nat option"
  as_dueDate :: jsdate
  as_notes :: "string option"

definition createWorkAssignment_try ::
  "(nat \<Rightarrow> bool) \<Rightarrow> assign_request \<Rightarrow> conn \<Rightarrow> response result" where
  "createWorkAssignment_try flt req c =
     (if \<not> truthy_id (as_locationId req) \<or> \<not> truthy_id (as_contractorId req)
      then Inr (respond 400 ''locationId and contractorId are required'' NoPayload, c)
      else
        case query flt (select_location_by_id (as_locationId req)) c of
          Inl x \<Rightarrow> Inl x
        | Inr (locations, c1) \<Rightarrow>
            if length locations = 0 then Inr (respond 404 ''Location not found'' NoPayload, c1)
            else
              (case query flt (select_active_contractor (as_contractorId req)) c1 of
                 Inl x \<Rightarrow> Inl x
               | Inr (found, c2) \<Rightarrow>
                   if length found = 0
                   then Inr (respond 404 ''Contractor not found or inactive'' NoPayload, c2)
                   else
                     (case query flt (select_open_assignments (as_locationId req)) c2 of
                        Inl x \<Rightarrow> Inl x
                      | Inr (existing, c3) \<Rightarrow>
                          (case existing of
                             first # _ \<Rightarrow>
                               (case query flt
                                       (\<lambda>d. case date_column (as_dueDate req) of
                                              Inl e \<Rightarrow> Inl e
                                            | Inr due \<Rightarrow>
                                                update_work_assignments
                                                  [''contractor_id'', ''due_date'', ''notes'',
                                                   ''status'']
                                                  (\<lambda>w. wa_id w = wa_id first)
                                                  (\<lambda>w. w\<lparr>wa_contractor_id :=
                                                             the (as_contractorId req),
                                                           wa_due_date := due,
                                                           wa_notes := or_null (as_notes req),
                                                           wa_status := ''assigned''\<rparr>) d) c3 of
                                  Inl x \<Rightarrow> Inl x
                                | Inr (_, c4) \<Rightarrow>
                                    (case query flt
                                            (update_aggregated_locations_where_id
                                               (\<lambda>r. r\<lparr>al_status := ''assigned''\<rparr>)
                                               (as_locationId req)) c4 of
                                       Inl x \<Rightarrow> Inl x
                                     | Inr (_, c5) \<Rightarrow>
                                         Inr (respond 200 ''Assignment updated successfully''
                                                (AssignmentId (wa_id first)), c5)))
                           | [] \<Rightarrow>
                               (case query flt
                                       (insert_work_assignments
                                          [''aggregated_location_id'', ''contractor_id'',
                                           ''due_date'', ''notes'']
                                          (as_locationId req) (as_contractorId req) None
                                          (as_dueDate req) (or_null (as_notes req))) c3 of
                                  Inl x \<Rightarrow> Inl x
                                | Inr (insertId, c4) \<Rightarrow>
                                    (case query flt
                                            (update_aggregated_locations_where_id
                                               (\<lambda>r. r\<lparr>al_status := ''assigned''\<rparr>)
                                               (as_locationId req)) c4 of
                                       Inl x \<Rightarrow> Inl x
                                     | Inr (_, c5) \<Rightarrow>
                                         Inr (respond 201 ''Assignment created successfully''
                                                (AssignmentId insertId), c5)))))))"

definition createWorkAssignment ::
  "(nat \<Rightarrow> bool) \<Rightarrow> db \<Rightarrow> assign_request \<Rightarrow> response \<times> conn" where
  "createWorkAssignment flt d req =
     (case createWorkAssignment_try flt req (pool d) of
        Inr (res, c) \<Rightarrow> (res, c)
      | Inl (e, c) \<Rightarrow> (respond 500 ''Failed to create assignment'' (ErrorCause e), c))"

definition assignToContractor_try ::
  "(nat \<Rightarrow> bool) \<Rightarrow> assign_request \<Rightarrow> conn \<Rightarrow> response result" where
  "assignToContractor_try flt req c =
     (case query flt (select_location_by_id (as_locationId req)) c of
        Inl x \<Rightarrow> Inl x
      | Inr (locations, c1) \<Rightarrow>
          if length locations = 0 then Inr (respond 404 ''Location not found'' NoPayload, c1)
          else
            (case query flt (select_active_contractor (as_contractorId req)) c1 of
               Inl x \<Rightarrow> Inl x
             | Inr (found, c2) \<Rightarrow>
                 if length found = 0
                 then Inr (respond 404 ''Contractor not found or inactive'' NoPayload, c2)
                 else
                   (case query flt
                           (insert_work_assignments
                              [''aggregated_location_id'', ''contractor_id'', ''assigned_by'',
                               ''due_date'', ''notes'']
                              (as_locationId req) (as_contractorId req) (Some (as_user req))
                              (as_dueDate req) (as_notes req)) c2 of
                      Inl x \<Rightarrow> Inl x
                    | Inr (insertId, c3) \<Rightarrow>
                        (case query flt
                                (update_aggregated_locations_where_id
                                   (\<lambda>r. r\<lparr>al_status := ''assigned''\<rparr>)
                                   (as_locationId req)) c3 of
                           Inl x \<Rightarrow> Inl x
                         | Inr (_, c4) \<Rightarrow>
                             Inr (respond 201 ''Assignment created successfully''
                                    (AssignmentId insertId), c4)))))"

definition assignToContractor ::
  "(nat \<Rightarrow> bool) \<Rightarrow> db \<Rightarrow> assign_request \<Rightarrow> response \<times> conn" where
  "assignToContractor flt d req =
     (case assignToContractor_try flt req (pool d) of
        Inr (res, c) \<Rightarrow> (res, c)
      | Inl (e, c) \<Rightarrow> (respond 500 ''Failed to create assignment'' (ErrorCause e), c))"

record batch_assign_request =
  ba_user :: nat
  ba_locationIds :: "nat list option"
  ba_contractorId :: "nat option"
  ba_dueDate :: jsdate
  ba_notes :: "string option"

fun batchAssign_loop ::
  "(nat \<Rightarrow> bool) \<Rightarrow> nat \<Rightarrow> batch_assign_request \<Rightarrow> nat list \<Rightarrow> nat list \<Rightarrow> conn
     \<Rightarrow> (nat list) result" where
  "batchAssign_loop flt now req [] assignmentIds c = Inr (assignmentIds, c)"
| "batchAssign_loop flt now req (locationId # rest) assignmentIds c =
     (case (if ba_dueDate req = NoDate then Inr NoDate
            else case toMySQLDatetime now (ba_dueDate req) of
                   Inl e \<Rightarrow> Inl e
                 | Inr t \<Rightarrow> Inr (Date t)) of
        Inl e \<Rightarrow> Inl (e, c)
      | Inr due \<Rightarrow>
          (case query flt
                  (insert_work_assignments
                     [''aggregated_location_id'', ''contractor_id'', ''assigned_by'',
                      ''due_date'', ''notes'']
                     (Some locationId) (ba_contractorId req) (Some (ba_user req)) due
                     (ba_notes req)) c of
             Inl x \<Rightarrow> Inl x
           | Inr (insertId, c1) \<Rightarrow>
               (case query flt
                       (update_aggregated_locations_where_id
                          (\<lambda>r. r\<lparr>al_status := ''assigned''\<rparr>) (Some locationId)) c1 of
                  Inl x \<Rightarrow> Inl x
                | Inr (_, c2) \<Rightarrow>
                    batchAssign_loop flt now req rest (assignmentIds @ [insertId]) c2)))"

definition batchAssign_try ::
  "(nat \<Rightarrow> bool) \<Rightarrow> nat \<Rightarrow> batch_assign_request \<Rightarrow> conn \<Rightarrow> response result" where
  "batchAssign_try flt now req c =
     (case ba_locationIds req of
        None \<Rightarrow> Inr (respond 400 ''locationIds and contractorId are required'' NoPayload, c)
      | Some locationIds \<Rightarrow>
          if length locationIds = 0 \<or> \<not> truthy_id (ba_contractorId req)
          then Inr (respond 400 ''locationIds and contractorId are required'' NoPayload, c)
          else
            (case query flt (select_active_contractor (ba_contractorId req)) c of
               Inl x \<Rightarrow> Inl x
             | Inr (found, c1) \<Rightarrow>
                 if length found = 0
                 then Inr (respond 404 ''Contractor not found or inactive'' NoPayload, c1)
                 else
                   (case batchAssign_loop flt now req locationIds [] c1 of
                      Inl x \<Rightarrow> Inl x
                    | Inr (assignmentIds, c2) \<Rightarrow>
                        Inr (respond 201
                               (digits (length locationIds) @ '' locations assigned successfully'')
                               (AssignmentIds assignmentIds),
                             commit c2))))"

definition batchAssign ::
  "(nat \<Rightarrow> bool) \<Rightarrow> nat \<Rightarrow> db \<Rightarrow> batch_assign_request \<Rightarrow> response \<times> conn" where
  "batchAssign flt now d req =
     (let connection = getConnection d in
      case batchAssign_try flt now req (beginTransaction connection) of
        Inr (res, c) \<Rightarrow> (res, release c)
      | Inl (e, c) \<Rightarrow>
          (respond 500 ''Failed to batch assign'' (ErrorCause e), release (rollback c)))"

subsection \<open>Verifying and rejecting\<close>

record verify_request =
  vr_locationId :: nat
  vr_notes :: "string option"

definition verifyLocation_try ::
  "(nat \<Rightarrow> bool) \<Rightarrow> nat \<Rightarrow> verify_request \<Rightarrow> conn \<Rightarrow> response result" where
  "verifyLocation_try flt now req c =
     (case query flt
             (update_aggregated_locations_where_id
                (\<lambda>r. r\<lparr>al_status := ''verified'', al_verified_at := Some now\<rparr>)
                (Some (vr_locationId req))) c of
        Inl x \<Rightarrow> Inl x
      | Inr (locationAffected, c1) \<Rightarrow>
          if locationAffected = 0 then Inr (respond 404 ''Location not found'' NoPayload, c1)
          else
            (case query flt
                    (update_work_assignments [''status'', ''completed_at'', ''admin_notes'']
                       (\<lambda>w. wa_aggregated_location_id w = vr_locationId req
                            \<and> wa_status w
                                \<in> {''pending_verification'', ''in_progress'', ''assigned''})
                       (\<lambda>w. w\<lparr>wa_status := ''verified'', wa_completed_at := Some now,
                               wa_admin_notes :=
                                 Some (or_text (vr_notes req) ''Verified from dashboard'')\<rparr>))
                    c1 of
               Inl x \<Rightarrow> Inl x
             | Inr (assignmentAffected, c2) \<Rightarrow>
                 Inr (respond 200 ''Work verified successfully''
                        (VerifyFlags (locationAffected > 0) (assignmentAffected > 0)), c2)))"

definition verifyLocation ::
  "(nat \<Rightarrow> bool) \<Rightarrow> nat \<Rightarrow> db \<Rightarrow> verify_request \<Rightarrow> response \<times> conn" where
  "verifyLocation flt now d req =
     (case verifyLocation_try flt now req (pool d) of
        Inr (res, c) \<Rightarrow> (res, c)
      | Inl (e, c) \<Rightarrow> (respond 500 ''Failed to verify work'' (ErrorCause e), c))"

definition verifyWork_try ::
  "(nat \<Rightarrow> bool) \<Rightarrow> nat \<Rightarrow> verify_request \<Rightarrow> conn \<Rightarrow> response result" where
  "verifyWork_try flt now req c =
     (case query flt
             (update_aggregated_locations_where_id
                (\<lambda>r. r\<lparr>al_status := ''verified'', al_verified_at := Some now\<rparr>)
                (Some (vr_locationId req))) c of
        Inl x \<Rightarrow> Inl x
      | Inr (_, c1) \<Rightarrow>
          (case query flt
                  (update_work_assignments [''status'', ''completed_at'', ''admin_notes'']
                     (\<lambda>w. wa_aggregated_location_id w = vr_locationId req
                          \<and> wa_status w = ''in_progress'')
                     (\<lambda>w. w\<lparr>wa_status := ''completed'', wa_completed_at := Some now,
                             wa_admin_notes := vr_notes req\<rparr>)) c1 of
             Inl x \<Rightarrow> Inl x
           | Inr (_, c2) \<Rightarrow> Inr (respond 200 ''Work verified successfully'' NoPayload, c2)))"

definition verifyWork ::
  "(nat \<Rightarrow> bool) \<Rightarrow> nat \<Rightarrow> db \<Rightarrow> verify_request \<Rightarrow> response \<times> conn" where
  "verifyWork flt now d req =
     (case verifyWork_try flt now req (pool d) of
        Inr (res, c) \<Rightarrow> (res, c)
      | Inl (e, c) \<Rightarrow> (respond 500 ''Failed to verify work'' (ErrorCause e), c))"

record reject_request =
  rj_locationId :: nat
  rj_reason :: "string option"

definition rejectVerification_try ::
  "(nat \<Rightarrow> bool) \<Rightarrow> reject_request \<Rightarrow> conn \<Rightarrow> response result" where
  "rejectVerification_try flt req c =
     (case query flt
             (update_work_assignments [''status'', ''admin_notes'']
                (\<lambda>w. wa_aggregated_location_id w = rj_locationId req
                     \<and> wa_status w = ''pending_verification'')
                (\<lambda>w. w\<lparr>wa_status := ''in_progress'', wa_admin_notes := rj_reason req\<rparr>)) c of
        Inl x \<Rightarrow> Inl x
      | Inr (_, c1) \<Rightarrow>
          (case query flt
                  (update_aggregated_locations_where_id
                     (\<lambda>r. r\<lparr>al_status := ''assigned''\<rparr>) (Some (rj_locationId req))) c1 of
             Inl x \<Rightarrow> Inl x
           | Inr (_, c2) \<Rightarrow>
               Inr (respond 200 ''Verification rejected, sent back to contractor'' NoPayload,
                    c2)))"

definition rejectVerification ::
  "(nat \<Rightarrow> bool) \<Rightarrow> db \<Rightarrow> reject_request \<Rightarrow> response \<times> conn" where
  "rejectVerification flt d req =
     (case rejectVerification_try flt req (pool d) of
        Inr (res, c) \<Rightarrow> (res, c)
      | Inl (e, c) \<Rightarrow> (respond 500 ''Failed to reject verification'' (ErrorCause e), c))"

record batch_verify_request =
  bv_locationIds :: "nat list option"
  bv_notes :: "string option"

fun batchVerifyLocations_loop ::
  "(nat \<Rightarrow> bool) \<Rightarrow> nat \<Rightarrow> string option \<Rightarrow> nat list \<Rightarrow> nat \<Rightarrow> nat \<Rightarrow> conn
     \<Rightarrow> (nat \<times> nat) result" where
  "batchVerifyLocations_loop flt now note [] locationsUpdated assignmentsUpdated c =
     Inr ((locationsUpdated, assignmentsUpdated), c)"
| "batchVerifyLocations_loop flt now note (locationId # rest) locationsUpdated
       assignmentsUpdated c =
     (case query flt
             (update_aggregated_locations_where_id
                (\<lambda>r. r\<lparr>al_status := ''verified'', al_verified_at := Some now\<rparr>)
                (Some locationId)) c of
        Inl x \<Rightarrow> Inl x
      | Inr (locAffected, c1) \<Rightarrow>
          (case query flt
                  (update_work_assignments [''status'', ''completed_at'', ''admin_notes'']
                     (\<lambda>w. wa_aggregated_location_id w = locationId
                          \<and> wa_status w
                              \<in> {''pending_verification'', ''in_progress'', ''assigned''})
                     (\<lambda>w. w\<lparr>wa_status := ''verified'', wa_completed_at := Some now,
                             wa_admin_notes :=
                               Some (or_text note ''Batch verified from dashboard'')\<rparr>)) c1 of
             Inl x \<Rightarrow> Inl x
           | Inr (assignAffected, c2) \<Rightarrow>
               batchVerifyLocations_loop flt now note rest (locationsUpdated + locAffected)
                 (assignmentsUpdated + assignAffected) c2))"

definition batchVerifyLocations_try ::
  "(nat \<Rightarrow> bool) \<Rightarrow> nat \<Rightarrow> batch_verify_request \<Rightarrow> conn \<Rightarrow> response result" where
  "batchVerifyLocations_try flt now req c =
     (case bv_locationIds req of
        None \<Rightarrow> Inr (respond 400 ''locationIds are required'' NoPayload, c)
      | Some locationIds \<Rightarrow>
          if length locationIds = 0
          then Inr (respond 400 ''locationIds are required'' NoPayload, c)
          else
            (case batchVerifyLocations_loop flt now (bv_notes req) locationIds 0 0 c of
               Inl x \<Rightarrow> Inl x
             | Inr ((locationsUpdated, assignmentsUpdated), c1) \<Rightarrow>
                 Inr (respond 200
                        (digits (length locationIds) @ '' locations verified successfully'')
                        (BatchCounts locationsUpdated assignmentsUpdated),
                      commit c1)))"

definition batchVerifyLocations ::
  "(nat \<Rightarrow> bool) \<Rightarrow> nat \<Rightarrow> db \<Rightarrow> batch_verify_request \<Rightarrow> response \<times> conn" where
  "batchVerifyLocations flt now d req =
     (let connection = getConnection d in
      case batchVerifyLocations_try flt now req (beginTransaction connection) of
        Inr (res, c) \<Rightarrow> (res, release c)
      | Inl (e, c) \<Rightarrow>
          (respond 500 ''Failed to batch verify'' (ErrorCause e), release (rollback c)))"

subsection \<open>The contractor's job update\<close>

record job_request =
  jr_user :: nat
  jr_jobId :: nat
  jr_status :: "string option"
  jr_notes :: "string option"

definition validStatuses :: "string list" where
  "validStatuses = [''assigned'', ''in_progress'', ''completed'', ''verified'']"

text \<open>
  The \<^verbatim>\<open>UPDATE\<close> of the handler sets three columns. The third, \<^verbatim>\<open>completion_date\<close>, is no
  column of \<^verbatim>\<open>work_assignments\<close> (the table has \<^verbatim>\<open>completed_at\<close>), so the row type has no
  field for it and the row function below writes the other two; the statement is refused
  by \<open>update_work_assignments\<close> on the column name, before any row is matched.
\<close>

definition updateJobStatus_try ::
  "(nat \<Rightarrow> bool) \<Rightarrow> nat \<Rightarrow> job_request \<Rightarrow> conn \<Rightarrow> response result" where
  "updateJobStatus_try flt now req c =
     (case jr_status req of
        None \<Rightarrow> Inr (respond 400 ''Invalid status'' NoPayload, c)
      | Some status \<Rightarrow>
          if status \<notin> set validStatuses then Inr (respond 400 ''Invalid status'' NoPayload, c)
          else
            (case query flt (select_contractors_by_user (jr_user req)) c of
               Inl x \<Rightarrow> Inl x
             | Inr (found, c1) \<Rightarrow>
                 (case found of
                    [] \<Rightarrow> Inr (respond 404 ''Contractor profile not found'' NoPayload, c1)
                  | contractor # _ \<Rightarrow>
                      (case query flt (select_job (jr_jobId req) (c_id contractor)) c1 of
                         Inl x \<Rightarrow> Inl x
                       | Inr (jobs, c2) \<Rightarrow>
                           (case jobs of
                              [] \<Rightarrow> Inr (respond 404 ''Job not found'' NoPayload, c2)
                            | job # _ \<Rightarrow>
                                let completionDate =
                                      (if status = ''completed'' then Some now else None)
                                in
                                case query flt
                                       (update_work_assignments
                                          [''status'', ''notes'', ''completion_date'']
                                          (\<lambda>w. wa_id w = jr_jobId req)
                                          (\<lambda>w. w\<lparr>wa_status := status,
                                                  wa_notes :=
                                                    Some (or_text (wa_notes w) []
                                                          @ [CHR 0x0A]
                                                          @ or_text (jr_notes req) [])\<rparr>))
                                       c2 of
                                  Inl x \<Rightarrow> Inl x
                                | Inr (_, c3) \<Rightarrow>
                                    if status = ''completed''
                                    then
                                      (case query flt
                                              (update_aggregated_locations_where_id
                                                 (\<lambda>r. r\<lparr>al_status := ''fixed''\<rparr>)
                                                 (Some (wa_aggregated_location_id job))) c3 of
                                         Inl x \<Rightarrow> Inl x
                                       | Inr (_, c4) \<Rightarrow>
                                           Inr (respond 200 ''Job status updated successfully''
                                                  NoPayload, c4))
                                    else
                                      Inr (respond 200 ''Job status updated successfully''
                                             NoPayload, c3))))))"

definition updateJobStatus ::
  "(nat \<Rightarrow> bool) \<Rightarrow> nat \<Rightarrow> db \<Rightarrow> job_request \<Rightarrow> response \<times> conn" where
  "updateJobStatus flt now d req =
     (case updateJobStatus_try flt now req (pool d) of
        Inr (res, c) \<Rightarrow> (res, c)
      | Inl (e, c) \<Rightarrow> (respond 500 ''Failed to update job'' (ErrorCause e), c))"

section \<open>Vocabulary of the properties\<close>



definition rank :: "string \<Rightarrow> nat" where
  "rank s = (case severityOrder s of None \<Rightarrow> 0 | Some n \<Rightarrow> n)"



section \<open>Example stores and requests\<close>

text \<open>
  A location is open for a new assignment row when none of its assignments is open: an
  assignment is open while its status is neither \<^verbatim>\<open>completed\<close> nor \<^verbatim>\<open>verified\<close>.
\<close>

definition open_assignments :: "nat \<Rightarrow> db \<Rightarrow> work_assignments_row list" where
  "open_assignments l d =
     filter (\<lambda>w. wa_aggregated_location_id w = l \<and> wa_status w \<notin> {''completed'', ''verified''})
       (work_assignments d)"

definition location :: "nat \<Rightarrow> string \<Rightarrow> aggregated_locations_row" where
  "location i st =
     \<lparr>al_id = i, al_grid_id = ''13.0000_80.0000'', al_latitude = ''13.0000'',
      al_longitude = ''80.0000'', al_total_potholes = 1, al_total_patchy = 0,
      al_highest_severity = ''High'', al_report_count = 1, al_first_reported_at = Some 1,
      al_last_reported_at = Some 1, al_status = st, al_verified_at = None\<rparr>"

definition assignment :: "nat \<Rightarrow> nat \<Rightarrow> string \<Rightarrow> work_assignments_row" where
  "assignment i l st =
     \<lparr>wa_id = i, wa_aggregated_location_id = l, wa_contractor_id = 1, wa_assigned_by = Some 1,
      wa_due_date = None, wa_status = st, wa_completed_at = None, wa_admin_notes = None,
      wa_notes = None\<rparr>"

text \<open>
  A store with an administrator (user 1), a contractor (user 2, contractor 1) and the given
  locations and assignments.
\<close>

definition store :: "aggregated_locations_row list \<Rightarrow> work_assignments_row list \<Rightarrow> db" where
  "store ls ws =
     \<lparr>users = [\<lparr>u_id = 1, u_device_id = None\<rparr>, \<lparr>u_id = 2, u_device_id = Some ''D1''\<rparr>],
      reports = [], pothole_detections = [], road_anomalies = [], aggregated_locations = ls,
      contractors = [\<lparr>c_id = 1, c_user_id = Some 2, c_is_active = True\<rparr>],
      work_assignments = ws\<rparr>"

definition job_request_example :: job_request where
  "job_request_example =
     \<lparr>jr_user = 2, jr_jobId = 1, jr_status = Some ''completed'', jr_notes = None\<rparr>"

definition assign_request_example :: assign_request where
  "assign_request_example =
     \<lparr>as_user = 1, as_locationId = Some 1, as_contractorId = Some 1, as_dueDate = NoDate,
      as_notes = None\<rparr>"

definition submit_request_invalid :: submit_request where
  "submit_request_invalid =
     \<lparr>sr_user = None, sr_report_id = None, sr_device_id = Some ''D1'', sr_reported_at = NoDate,
      sr_anomalies = Items []\<rparr>"

definition pothole_at :: "rat \<Rightarrow> rat \<Rightarrow> string option \<Rightarrow> anomaly" where
  "pothole_at la lo sev =
     \<lparr>a_type = ''pothole'', a_location_id = None, a_latitude = Some la, a_longitude = Some lo,
      a_start_latitude = None, a_start_longitude = None, a_end_latitude = None,
      a_end_longitude = None, a_severity = sev, a_timestamp = NoDate,
      a_start_timestamp = NoDate, a_end_timestamp = NoDate, a_duration_seconds = None\<rparr>"

definition road_anomaly_at :: "rat \<Rightarrow> rat \<Rightarrow> string option \<Rightarrow> anomaly" where
  "road_anomaly_at la lo sev =
     \<lparr>a_type = ''road_anomaly'', a_location_id = None, a_latitude = None, a_longitude = None,
      a_start_latitude = Some la, a_start_longitude = Some lo, a_end_latitude = None,
      a_end_longitude = None, a_severity = sev, a_timestamp = NoDate,
      a_start_timestamp = Date 3, a_end_timestamp = NoDate, a_duration_seconds = Some 4\<rparr>"

definition submit_request_example :: submit_request where
  "submit_request_example =
     \<lparr>sr_user = None, sr_report_id = Some ''R1'', sr_device_id = Some ''D1'',
      sr_reported_at = Date 5,
      sr_anomalies = Items [pothole_at 13 80 (Some ''Low''), pothole_at 13 80 (Some ''High''),
                            pothole_at 13 80 None, road_anomaly_at 13 80 (Some ''Low'')]\<rparr>"


section \<open>Properties\<close>

subsection \<open>Evaluation and basic facts\<close>

lemma digits_lt10: "n < 10 \<Longrightarrow> digits n = [digit_char n]"
  by (simp add: digits.simps)

lemma digits_ge10: "10 \<le> n \<Longrightarrow> digits n = digits (n div 10) @ [digit_char (n mod 10)]"
  by (subst digits.simps) simp

lemma floor_divide_numeral_rat: "\<lfloor>numeral a / numeral b :: rat\<rfloor> = numeral a div numeral b"
  by (metis floor_divide_of_int_eq of_int_numeral)

lemma floor_one_divide_numeral_rat: "\<lfloor>1 / numeral b :: rat\<rfloor> = 1 div numeral b"
  by (metis floor_divide_of_int_eq of_int_1 of_int_numeral)

lemma floor_minus_divide_numeral_rat:
  "\<lfloor>- (numeral a / numeral b) :: rat\<rfloor> = - numeral a div numeral b"
  by (metis divide_minus_left floor_divide_of_int_eq of_int_neg_numeral of_int_numeral)

lemma replicate_numeral: "replicate (numeral k) ch = ch # replicate (numeral k - 1) ch"
  by (simp add: numeral_eq_Suc)

lemmas eval_fixed4 =
  fixed4_def toFixed4_def gridId_of_def Let_def digits_lt10 digits_ge10 digit_char_def
  floor_divide_numeral_rat floor_one_divide_numeral_rat floor_minus_divide_numeral_rat
  replicate_numeral round_dp_def

lemmas eval_lifecycle =
  query_def Let_def pool_def issued_def respond_def truthy_id_def or_null_def truthy_def
  or_text_def select_location_by_id_def select_active_contractor_def
  select_open_assignments_def insert_work_assignments_def update_work_assignments_def
  work_assignments_columns_def update_aggregated_locations_where_id_def date_column_def
  next_id_def store_def location_def assignment_def open_assignments_def
  getConnection_def beginTransaction_def commit_def rollback_def release_def

lemma map_if_unmatched: "\<forall>x \<in> set xs. \<not> P x \<Longrightarrow> map (\<lambda>x. if P x then f x else x) xs = xs"
  by (induction xs) auto

lemmas eval_submit =
  eval_fixed4 eval_lifecycle submit_request_example_def pothole_at_def road_anomaly_at_def
  submitReport_def submitReport_try_def resolve_userId_def toMySQLDatetime_def or_number_def
  select_users_by_device_def insert_reports_def insert_pothole_detections_def
  insert_road_anomalies_def decimal_10_6_def decimal_10_6_null_def decimal_10_4_ok_def
  severity_enum_def select_aggregated_locations_def update_aggregated_locations_def
  insert_aggregated_locations_def updateAggregatedLocation_def severityOrder_def js_gt_def

subsection \<open>Statements, steps and loops of the ingestion\<close>

text \<open>
  A coordinate that a detection insert accepts is a number of magnitude below \<open>10^21\<close>, the
  range in which \<open>fixed4\<close> is \<^verbatim>\<open>toFixed(4)\<close>.
\<close>

lemma decimal_10_6_bound:
  assumes "decimal_10_6 v = Inr y"
  shows "\<exists>x. v = Some x \<and> \<bar>x\<bar> < 10 ^ 21"
proof -
  from assms obtain x where v: "v = Some x" and r: "\<bar>round_dp 6 x\<bar> < 10 ^ 10"
    by (auto simp: decimal_10_6_def split: option.splits if_splits)
  have "\<bar>x\<bar> < 10 ^ 4"
  proof (cases "x < 0")
    case True
    with r have "\<lfloor>- x * 10 ^ 6 + 1 / 2\<rfloor> < 10 ^ 10"
      by (simp add: round_dp_def)
    then have "- x * 10 ^ 6 + 1 / 2 < 10 ^ 10"
      by (simp add: floor_less_iff)
    with True show ?thesis
      by simp
  next
    case False
    with r have "\<lfloor>x * 10 ^ 6 + 1 / 2\<rfloor> < 10 ^ 10"
      by (simp add: round_dp_def)
    then have "x * 10 ^ 6 + 1 / 2 < 10 ^ 10"
      by (simp add: floor_less_iff)
    with False show ?thesis
      by simp
  qed
  with v show ?thesis
    by simp
qed

lemma insert_pothole_detections_bound:
  assumes "insert_pothole_detections report location_id latitude longitude severity ts d = Inr r"
  shows "\<exists>x y. latitude = Some x \<and> longitude = Some y \<and> \<bar>x\<bar> < 10 ^ 21 \<and> \<bar>y\<bar> < 10 ^ 21"
proof -
  from assms obtain la lo where "decimal_10_6 latitude = Inr la" "decimal_10_6 longitude = Inr lo"
    by (auto simp: insert_pothole_detections_def split: sum.splits if_splits)
  then show ?thesis
    using decimal_10_6_bound by blast
qed

lemma insert_road_anomalies_bound:
  assumes "insert_road_anomalies report location_id start_latitude start_longitude end_latitude
             end_longitude severity start_ts end_ts duration d = Inr r"
  shows "\<exists>x y. start_latitude = Some x \<and> start_longitude = Some y
               \<and> \<bar>x\<bar> < 10 ^ 21 \<and> \<bar>y\<bar> < 10 ^ 21"
proof -
  from assms obtain la lo where
    "decimal_10_6 start_latitude = Inr la" "decimal_10_6 start_longitude = Inr lo"
    by (auto simp: insert_road_anomalies_def split: sum.splits if_splits)
  then show ?thesis
    using decimal_10_6_bound by blast
qed

lemma query_Inr:
  "query flt stmt c = Inr (r, c') \<Longrightarrow>
     \<not> flt (issued c) \<and> stmt (working c) = Inr (r, working c') \<and> in_tx c' = in_tx c
     \<and> (in_tx c \<longrightarrow> committed c' = committed c)"
  by (auto simp: query_def Let_def split: if_splits sum.splits prod.splits)

lemma query_Inl:
  "query flt stmt c = Inl (e, c') \<Longrightarrow>
     working c' = working c \<and> committed c' = committed c \<and> in_tx c' = in_tx c"
  by (auto simp: query_def Let_def split: if_splits sum.splits prod.splits)

lemma updateAggregatedLocation_Inl:
  "updateAggregatedLocation flt now data ty c = Inl (e, c') \<Longrightarrow>
     in_tx c' = in_tx c \<and> (in_tx c \<longrightarrow> committed c' = committed c)"
  unfolding updateAggregatedLocation_def Let_def
  by (auto split: sum.splits prod.splits list.splits dest!: query_Inr query_Inl)

lemma select_aggregated_locations_Inr:
  "select_aggregated_locations g d = Inr (rows, d') \<Longrightarrow>
     d' = d \<and> rows = filter (\<lambda>r. al_grid_id r = g) (aggregated_locations d)"
  by (auto simp: select_aggregated_locations_def)

lemma update_aggregated_locations_Inr:
  "update_aggregated_locations po pa nh now g d = Inr (u, d') \<Longrightarrow>
     users d' = users d \<and> reports d' = reports d
     \<and> pothole_detections d' = pothole_detections d
     \<and> road_anomalies d' = road_anomalies d
     \<and> contractors d' = contractors d \<and> work_assignments d' = work_assignments d"
  by (auto simp: update_aggregated_locations_def split: if_splits)

lemma insert_aggregated_locations_Inr:
  "insert_aggregated_locations g la lo po pa sev now d = Inr (u, d') \<Longrightarrow>
     users d' = users d \<and> reports d' = reports d
     \<and> pothole_detections d' = pothole_detections d
     \<and> road_anomalies d' = road_anomalies d
     \<and> contractors d' = contractors d \<and> work_assignments d' = work_assignments d"
  by (auto simp: insert_aggregated_locations_def split: if_splits)

lemma updateAggregatedLocation_Inr:
  assumes "updateAggregatedLocation flt now data ty c = Inr (u, c')"
  shows "in_tx c' = in_tx c \<and> (in_tx c \<longrightarrow> committed c' = committed c)
     \<and> users (working c') = users (working c)
     \<and> reports (working c') = reports (working c)
     \<and> pothole_detections (working c') = pothole_detections (working c)
     \<and> road_anomalies (working c') = road_anomalies (working c)
     \<and> contractors (working c') = contractors (working c)
     \<and> work_assignments (working c') = work_assignments (working c)"
proof -
  let ?g = "toFixed4 (d_latitude data) @ ''_'' @ toFixed4 (d_longitude data)"
  from assms obtain existing c1 where
    s: "query flt (select_aggregated_locations ?g) c = Inr (existing, c1)"
    unfolding updateAggregatedLocation_def Let_def
    by (auto split: sum.splits prod.splits)
  from query_Inr [OF s] have c1: "in_tx c1 = in_tx c" "in_tx c \<longrightarrow> committed c1 = committed c"
    "working c1 = working c"
    by (auto dest: select_aggregated_locations_Inr)
  from assms s obtain stmt where w: "query flt stmt c1 = Inr (u, c')"
    and eff: "\<And>d d'. stmt d = Inr (u, d') \<Longrightarrow>
            users d' = users d \<and> reports d' = reports d
          \<and> pothole_detections d' = pothole_detections d
          \<and> road_anomalies d' = road_anomalies d
          \<and> contractors d' = contractors d \<and> work_assignments d' = work_assignments d"
    unfolding updateAggregatedLocation_def Let_def
    by (cases existing)
      (auto dest: update_aggregated_locations_Inr insert_aggregated_locations_Inr)
  from query_Inr [OF w] eff c1 show ?thesis
    by auto
qed


lemma insert_pothole_detections_Inr:
  "insert_pothole_detections rid loc la lo sev ts d = Inr (u, d') \<Longrightarrow>
     users d' = users d \<and> reports d' = reports d \<and> road_anomalies d' = road_anomalies d
     \<and> aggregated_locations d' = aggregated_locations d
     \<and> contractors d' = contractors d \<and> work_assignments d' = work_assignments d
     \<and> length (pothole_detections d') = Suc (length (pothole_detections d))"
  by (auto simp: insert_pothole_detections_def split: sum.splits if_splits)

lemma insert_road_anomalies_Inr:
  "insert_road_anomalies rid loc sla slo ela elo sev sts ets dur d = Inr (u, d') \<Longrightarrow>
     users d' = users d \<and> reports d' = reports d
     \<and> pothole_detections d' = pothole_detections d
     \<and> aggregated_locations d' = aggregated_locations d
     \<and> contractors d' = contractors d \<and> work_assignments d' = work_assignments d
     \<and> length (road_anomalies d') = Suc (length (road_anomalies d))"
  by (auto simp: insert_road_anomalies_def split: sum.splits if_splits)

lemma insert_potholes_Cons_Inr:
  "insert_potholes flt now rid (p # ps) c = Inr (u, c') \<Longrightarrow>
     \<exists>ts c1 c2.
        toMySQLDatetime now (a_timestamp p) = Inr ts
      \<and> query flt (insert_pothole_detections rid (a_location_id p) (a_latitude p)
                     (a_longitude p) (or_text (a_severity p) ''Medium'') ts) c = Inr ((), c1)
      \<and> updateAggregatedLocation flt now
           \<lparr>d_latitude = a_latitude p, d_longitude = a_longitude p,
            d_severity = a_severity p\<rparr> ''pothole'' c1 = Inr ((), c2)
      \<and> insert_potholes flt now rid ps c2 = Inr (u, c')"
  by (auto split: sum.splits prod.splits)

lemma insert_potholes_Cons_Inl:
  "insert_potholes flt now rid (p # ps) c = Inl (e, c') \<Longrightarrow>
     (toMySQLDatetime now (a_timestamp p) = Inl e \<and> c' = c)
   \<or> (\<exists>ts. query flt (insert_pothole_detections rid (a_location_id p) (a_latitude p)
                     (a_longitude p) (or_text (a_severity p) ''Medium'') ts) c = Inl (e, c'))
   \<or> (\<exists>ts c1.
        query flt (insert_pothole_detections rid (a_location_id p) (a_latitude p)
                     (a_longitude p) (or_text (a_severity p) ''Medium'') ts) c = Inr ((), c1)
      \<and> updateAggregatedLocation flt now
           \<lparr>d_latitude = a_latitude p, d_longitude = a_longitude p,
            d_severity = a_severity p\<rparr> ''pothole'' c1 = Inl (e, c'))
   \<or> (\<exists>ts c1 c2.
        query flt (insert_pothole_detections rid (a_location_id p) (a_latitude p)
                     (a_longitude p) (or_text (a_severity p) ''Medium'') ts) c = Inr ((), c1)
      \<and> updateAggregatedLocation flt now
           \<lparr>d_latitude = a_latitude p, d_longitude = a_longitude p,
            d_severity = a_severity p\<rparr> ''pothole'' c1 = Inr ((), c2)
      \<and> insert_potholes flt now rid ps c2 = Inl (e, c'))"
  by (auto split: sum.splits prod.splits)

lemma insert_potholes_Inl:
  "insert_potholes flt now rid ps c = Inl (e, c') \<Longrightarrow>
     in_tx c' = in_tx c \<and> (in_tx c \<longrightarrow> committed c' = committed c)"
proof (induction ps arbitrary: c)
  case Nil
  then show ?case by simp
next
  case (Cons p ps)
  from insert_potholes_Cons_Inl [OF Cons.prems] show ?case
  proof (elim disjE exE conjE)
    assume "c' = c"
    then show ?thesis by simp
  next
    fix ts
    assume "query flt (insert_pothole_detections rid (a_location_id p) (a_latitude p)
              (a_longitude p) (or_text (a_severity p) ''Medium'') ts) c = Inl (e, c')"
    from query_Inl [OF this] show ?thesis by simp
  next
    fix ts c1
    assume q: "query flt (insert_pothole_detections rid (a_location_id p) (a_latitude p)
              (a_longitude p) (or_text (a_severity p) ''Medium'') ts) c = Inr ((), c1)"
      and u: "updateAggregatedLocation flt now
           \<lparr>d_latitude = a_latitude p, d_longitude = a_longitude p,
            d_severity = a_severity p\<rparr> ''pothole'' c1 = Inl (e, c')"
    from query_Inr [OF q] updateAggregatedLocation_Inl [OF u] show ?thesis by simp
  next
    fix ts c1 c2
    assume q: "query flt (insert_pothole_detections rid (a_location_id p) (a_latitude p)
              (a_longitude p) (or_text (a_severity p) ''Medium'') ts) c = Inr ((), c1)"
      and u: "updateAggregatedLocation flt now
           \<lparr>d_latitude = a_latitude p, d_longitude = a_longitude p,
            d_severity = a_severity p\<rparr> ''pothole'' c1 = Inr ((), c2)"
      and r: "insert_potholes flt now rid ps c2 = Inl (e, c')"
    from query_Inr [OF q] updateAggregatedLocation_Inr [OF u] Cons.IH [OF r]
    show ?thesis by simp
  qed
qed

lemma insert_potholes_Inr:
  "insert_potholes flt now rid ps c = Inr (u, c') \<Longrightarrow>
     in_tx c' = in_tx c \<and> (in_tx c \<longrightarrow> committed c' = committed c)
     \<and> users (working c') = users (working c)
     \<and> reports (working c') = reports (working c)
     \<and> length (pothole_detections (working c'))
         = length (pothole_detections (working c)) + length ps
     \<and> road_anomalies (working c') = road_anomalies (working c)
     \<and> contractors (working c') = contractors (working c)
     \<and> work_assignments (working c') = work_assignments (working c)"
proof (induction ps arbitrary: c)
  case Nil
  then show ?case by simp
next
  case (Cons p ps)
  from insert_potholes_Cons_Inr [OF Cons.prems] obtain ts c1 c2 where
    q: "query flt (insert_pothole_detections rid (a_location_id p) (a_latitude p)
              (a_longitude p) (or_text (a_severity p) ''Medium'') ts) c = Inr ((), c1)"
    and u: "updateAggregatedLocation flt now
           \<lparr>d_latitude = a_latitude p, d_longitude = a_longitude p,
            d_severity = a_severity p\<rparr> ''pothole'' c1 = Inr ((), c2)"
    and r: "insert_potholes flt now rid ps c2 = Inr (u, c')"
    by blast
  from query_Inr [OF q] have
    "insert_pothole_detections rid (a_location_id p) (a_latitude p) (a_longitude p)
       (or_text (a_severity p) ''Medium'') ts (working c) = Inr ((), working c1)"
    by simp
  from insert_pothole_detections_Inr [OF this] query_Inr [OF q]
    updateAggregatedLocation_Inr [OF u] Cons.IH [OF r]
  show ?case by simp
qed


lemma insert_patchyRoads_Cons_Inr:
  "insert_patchyRoads flt now rid (p # ps) c = Inr (u, c') \<Longrightarrow>
     \<exists>sts ets c1 c2.
        query flt (insert_road_anomalies rid (a_location_id p)
                     (or_number (a_start_latitude p) (a_latitude p))
                     (or_number (a_start_longitude p) (a_longitude p))
                     (a_end_latitude p) (a_end_longitude p)
                     (or_text (a_severity p) ''Medium'') sts ets (a_duration_seconds p)) c
          = Inr ((), c1)
      \<and> updateAggregatedLocation flt now
           \<lparr>d_latitude = or_number (a_start_latitude p) (a_latitude p),
            d_longitude = or_number (a_start_longitude p) (a_longitude p),
            d_severity = a_severity p\<rparr> ''patchy'' c1 = Inr ((), c2)
      \<and> insert_patchyRoads flt now rid ps c2 = Inr (u, c')"
  by (auto split: sum.splits prod.splits)

lemma insert_patchyRoads_Cons_Inl:
  "insert_patchyRoads flt now rid (p # ps) c = Inl (e, c') \<Longrightarrow>
     c' = c
   \<or> (\<exists>sts ets.
        query flt (insert_road_anomalies rid (a_location_id p)
                     (or_number (a_start_latitude p) (a_latitude p))
                     (or_number (a_start_longitude p) (a_longitude p))
                     (a_end_latitude p) (a_end_longitude p)
                     (or_text (a_severity p) ''Medium'') sts ets (a_duration_seconds p)) c
          = Inl (e, c'))
   \<or> (\<exists>sts ets c1.
        query flt (insert_road_anomalies rid (a_location_id p)
                     (or_number (a_start_latitude p) (a_latitude p))
                     (or_number (a_start_longitude p) (a_longitude p))
                     (a_end_latitude p) (a_end_longitude p)
                     (or_text (a_severity p) ''Medium'') sts ets (a_duration_seconds p)) c
          = Inr ((), c1)
      \<and> updateAggregatedLocation flt now
           \<lparr>d_latitude = or_number (a_start_latitude p) (a_latitude p),
            d_longitude = or_number (a_start_longitude p) (a_longitude p),
            d_severity = a_severity p\<rparr> ''patchy'' c1 = Inl (e, c'))
   \<or> (\<exists>sts ets c1 c2.
        query flt (insert_road_anomalies rid (a_location_id p)
                     (or_number (a_start_latitude p) (a_latitude p))
                     (or_number (a_start_longitude p) (a_longitude p))
                     (a_end_latitude p) (a_end_longitude p)
                     (or_text (a_severity p) ''Medium'') sts ets (a_duration_seconds p)) c
          = Inr ((), c1)
      \<and> updateAggregatedLocation flt now
           \<lparr>d_latitude = or_number (a_start_latitude p) (a_latitude p),
            d_longitude = or_number (a_start_longitude p) (a_longitude p),
            d_severity = a_severity p\<rparr> ''patchy'' c1 = Inr ((), c2)
      \<and> insert_patchyRoads flt now rid ps c2 = Inl (e, c'))"
  by (auto split: sum.splits prod.splits)

lemma insert_patchyRoads_Inl:
  "insert_patchyRoads flt now rid ps c = Inl (e, c') \<Longrightarrow>
     in_tx c' = in_tx c \<and> (in_tx c \<longrightarrow> committed c' = committed c)"
proof (induction ps arbitrary: c)
  case Nil
  then show ?case by simp
next
  case (Cons p ps)
  from insert_patchyRoads_Cons_Inl [OF Cons.prems] show ?case
  proof (elim disjE exE conjE)
    assume "c' = c"
    then show ?thesis by simp
  next
    fix sts ets
    assume "query flt (insert_road_anomalies rid (a_location_id p)
                     (or_number (a_start_latitude p) (a_latitude p))
                     (or_number (a_start_longitude p) (a_longitude p))
                     (a_end_latitude p) (a_end_longitude p)
                     (or_text (a_severity p) ''Medium'') sts ets (a_duration_seconds p)) c
          = Inl (e, c')"
    from query_Inl [OF this] show ?thesis by simp
  next
    fix sts ets c1
    assume q: "query flt (insert_road_anomalies rid (a_location_id p)
                     (or_number (a_start_latitude p) (a_latitude p))
                     (or_number (a_start_longitude p) (a_longitude p))
                     (a_end_latitude p) (a_end_longitude p)
                     (or_text (a_severity p) ''Medium'') sts ets (a_duration_seconds p)) c
          = Inr ((), c1)"
      and u: "updateAggregatedLocation flt now
           \<lparr>d_latitude = or_number (a_start_latitude p) (a_latitude p),
            d_longitude = or_number (a_start_longitude p) (a_longitude p),
            d_severity = a_severity p\<rparr> ''patchy'' c1 = Inl (e, c')"
    from query_Inr [OF q] updateAggregatedLocation_Inl [OF u] show ?thesis by simp
  next
    fix sts ets c1 c2
    assume q: "query flt (insert_road_anomalies rid (a_location_id p)
                     (or_number (a_start_latitude p) (a_latitude p))
                     (or_number (a_start_longitude p) (a_longitude p))
                     (a_end_latitude p) (a_end_longitude p)
                     (or_text (a_severity p) ''Medium'') sts ets (a_duration_seconds p)) c
          = Inr ((), c1)"
      and u: "updateAggregatedLocation flt now
           \<lparr>d_latitude = or_number (a_start_latitude p) (a_latitude p),
            d_longitude = or_number (a_start_longitude p) (a_longitude p),
            d_severity = a_severity p\<rparr> ''patchy'' c1 = Inr ((), c2)"
      and r: "insert_patchyRoads flt now rid ps c2 = Inl (e, c')"
    from query_Inr [OF q] updateAggregatedLocation_Inr [OF u] Cons.IH [OF r]
    show ?thesis by simp
  qed
qed

lemma insert_patchyRoads_Inr:
  "insert_patchyRoads flt now rid ps c = Inr (u, c') \<Longrightarrow>
     in_tx c' = in_tx c \<and> (in_tx c \<longrightarrow> committed c' = committed c)
     \<and> users (working c') = users (working c)
     \<and> reports (working c') = reports (working c)
     \<and> pothole_detections (working c') = pothole_detections (working c)
     \<and> length (road_anomalies (working c'))
         = length (road_anomalies (working c)) + length ps
     \<and> contractors (working c') = contractors (working c)
     \<and> work_assignments (working c') = work_assignments (working c)"
proof (induction ps arbitrary: c)
  case Nil
  then show ?case by simp
next
  case (Cons p ps)
  from insert_patchyRoads_Cons_Inr [OF Cons.prems] obtain sts ets c1 c2 where
    q: "query flt (insert_road_anomalies rid (a_location_id p)
                     (or_number (a_start_latitude p) (a_latitude p))
                     (or_number (a_start_longitude p) (a_longitude p))
                     (a_end_latitude p) (a_end_longitude p)
                     (or_text (a_severity p) ''Medium'') sts ets (a_duration_seconds p)) c
          = Inr ((), c1)"
    and u: "updateAggregatedLocation flt now
           \<lparr>d_latitude = or_number (a_start_latitude p) (a_latitude p),
            d_longitude = or_number (a_start_longitude p) (a_longitude p),
            d_severity = a_severity p\<rparr> ''patchy'' c1 = Inr ((), c2)"
    and r: "insert_patchyRoads flt now rid ps c2 = Inr (u, c')"
    by blast
  from query_Inr [OF q] have
    "insert_road_anomalies rid (a_location_id p)
       (or_number (a_start_latitude p) (a_latitude p))
       (or_number (a_start_longitude p) (a_longitude p))
       (a_end_latitude p) (a_end_longitude p)
       (or_text (a_severity p) ''Medium'') sts ets (a_duration_seconds p) (working c)
     = Inr ((), working c1)"
    by simp
  from insert_road_anomalies_Inr [OF this] query_Inr [OF q]
    updateAggregatedLocation_Inr [OF u] Cons.IH [OF r]
  show ?case by simp
qed


lemma select_users_by_device_Inr:
  "select_users_by_device dv d = Inr (rows, d') \<Longrightarrow> d' = d"
  by (simp add: select_users_by_device_def)

lemma resolve_userId_Inr:
  "resolve_userId flt user dv c = Inr (userId, c1) \<Longrightarrow>
     working c1 = working c \<and> in_tx c1 = in_tx c \<and> (in_tx c \<longrightarrow> committed c1 = committed c)"
  by (auto simp: resolve_userId_def split: if_splits sum.splits prod.splits
      dest!: query_Inr select_users_by_device_Inr)

lemma resolve_userId_Inl:
  "resolve_userId flt user dv c = Inl (e, c1) \<Longrightarrow>
     working c1 = working c \<and> in_tx c1 = in_tx c \<and> committed c1 = committed c"
  by (auto simp: resolve_userId_def split: if_splits sum.splits prod.splits dest!: query_Inl)

lemma submitReport_try_Inr:
  assumes "submitReport_try flt now req c = Inr (res, c')"
  shows "(res = respond 400 ''Missing required fields: report_id, device_id, anomalies'' NoPayload
          \<and> c' = c)
       \<or> (\<exists>anomalies userId c1 reported_at dbReportId c2 c3 c4.
             truthy (sr_report_id req) \<and> truthy (sr_device_id req)
           \<and> sr_anomalies req = Items anomalies
           \<and> resolve_userId flt (sr_user req) (the (sr_device_id req)) c = Inr (userId, c1)
           \<and> toMySQLDatetime now (sr_reported_at req) = Inr reported_at
           \<and> query flt
                (insert_reports (the (sr_report_id req)) userId (the (sr_device_id req))
                   reported_at
                   (length (filter (\<lambda>a. a_type a = ''pothole'') anomalies))
                   (length (filter (\<lambda>a. a_type a = ''road_anomaly'') anomalies))
                   (max 0 (100 - (int (length (filter (\<lambda>a. a_type a = ''pothole'') anomalies)) * 15
                        + int (length (filter (\<lambda>a. a_type a = ''road_anomaly'') anomalies)) * 5))))
                c1 = Inr (dbReportId, c2)
           \<and> insert_potholes flt now dbReportId
                (filter (\<lambda>a. a_type a = ''pothole'') anomalies) c2 = Inr ((), c3)
           \<and> insert_patchyRoads flt now dbReportId
                (filter (\<lambda>a. a_type a = ''road_anomaly'') anomalies) c3 = Inr ((), c4)
           \<and> c' = commit c4
           \<and> res = respond 201 ''Report submitted successfully''
                (SubmitData (the (sr_report_id req)) dbReportId
                   (length (filter (\<lambda>a. a_type a = ''pothole'') anomalies))
                   (length (filter (\<lambda>a. a_type a = ''road_anomaly'') anomalies))
                   (max 0 (100 - (int (length (filter (\<lambda>a. a_type a = ''pothole'') anomalies)) * 15
                        + int (length (filter (\<lambda>a. a_type a = ''road_anomaly'') anomalies)) * 5)))
                   ''pending''))"
  using assms
  by (auto simp: submitReport_try_def Let_def
      split: if_splits sum.splits prod.splits anomalies_field.splits)

lemma submitReport_try_Inl:
  assumes "submitReport_try flt now req c = Inl (e, c')"
  shows "in_tx c' = in_tx c \<and> (in_tx c \<longrightarrow> committed c' = committed c)"
  using assms
  by (auto simp: submitReport_try_def Let_def
      split: if_splits sum.splits prod.splits anomalies_field.splits
      dest!: resolve_userId_Inr resolve_userId_Inl query_Inr query_Inl
        insert_potholes_Inr insert_potholes_Inl insert_patchyRoads_Inr insert_patchyRoads_Inl)


lemma insert_reports_Inr:
  "insert_reports rep uid dv ts p a h d = Inr (i, d') \<Longrightarrow>
     rep \<notin> set (map r_report_id (reports d))
     \<and> reports d' = reports d @
          [\<lparr>r_id = i, r_report_id = rep, r_user_id = uid, r_device_id = dv, r_reported_at = ts,
            r_total_potholes = p, r_total_patchy_roads = a, r_health_score = h,
            r_status = ''pending''\<rparr>]
     \<and> users d' = users d \<and> pothole_detections d' = pothole_detections d
     \<and> road_anomalies d' = road_anomalies d
     \<and> aggregated_locations d' = aggregated_locations d
     \<and> contractors d' = contractors d \<and> work_assignments d' = work_assignments d"
  by (auto simp: insert_reports_def Let_def split: if_splits)

lemma begin_facts:
  "in_tx (beginTransaction (getConnection d))"
  "committed (beginTransaction (getConnection d)) = d"
  "working (beginTransaction (getConnection d)) = d"
  by (simp_all add: beginTransaction_def getConnection_def)

text \<open>
  C1. \<open>submitReport\<close> commits only when every step went through. Its answer has status
  201, 400, 409 or 500. An answer other than 201 (a failed insert of the report, of a
  detection, a failed merge, or any other exception) leaves the committed store exactly as
  it was before the call, and the connection's own view of the store as well: with 409 or
  500 the transaction has been rolled back and is closed, so whatever had been written on
  the connection until then is undone. An answer of 201 means that the insert of the report, the
  loop over the potholes and the loop over the road anomalies all returned (each loop
  stops at the first insert or merge that fails), and the committed store is what the last
  of them left: one more report, one more pothole row for every pothole and one more
  anomaly row for every road anomaly.
\<close>

theorem submitReport_atomic:
  assumes "submitReport flt now d req = (res, c)"
  shows "code res \<in> {201, 400, 409, 500}
       \<and> (code res \<noteq> 201 \<longrightarrow> committed c = d \<and> working c = d)
       \<and> (code res = 409 \<or> code res = 500 \<longrightarrow> \<not> in_tx c \<and> Rollback \<in> set (trace c))
       \<and> (code res = 201 \<longrightarrow>
            (\<exists>anomalies userId c1 reported_at dbReportId c2 c3 c4.
                sr_anomalies req = Items anomalies
              \<and> working c1 = d
              \<and> query flt
                   (insert_reports (the (sr_report_id req)) userId (the (sr_device_id req))
                      reported_at
                      (length (filter (\<lambda>a. a_type a = ''pothole'') anomalies))
                      (length (filter (\<lambda>a. a_type a = ''road_anomaly'') anomalies))
                      (max 0 (100 - (int (length (filter (\<lambda>a. a_type a = ''pothole'')
                                                   anomalies)) * 15
                                    + int (length (filter (\<lambda>a. a_type a = ''road_anomaly'')
                                                     anomalies)) * 5))))
                   c1 = Inr (dbReportId, c2)
              \<and> insert_potholes flt now dbReportId
                   (filter (\<lambda>a. a_type a = ''pothole'') anomalies) c2 = Inr ((), c3)
              \<and> insert_patchyRoads flt now dbReportId
                   (filter (\<lambda>a. a_type a = ''road_anomaly'') anomalies) c3 = Inr ((), c4)
              \<and> committed c = working c4
              \<and> length (reports (committed c)) = length (reports d) + 1
              \<and> length (pothole_detections (committed c))
                  = length (pothole_detections d)
                    + length (filter (\<lambda>a. a_type a = ''pothole'') anomalies)
              \<and> length (road_anomalies (committed c))
                  = length (road_anomalies d)
                    + length (filter (\<lambda>a. a_type a = ''road_anomaly'') anomalies)))"
proof (cases "submitReport_try flt now req (beginTransaction (getConnection d))")
  case (Inl x)
  obtain e c' where x: "x = (e, c')" by (cases x)
  from submitReport_try_Inl [OF Inl [unfolded x]] have "committed c' = d"
    by (simp add: begin_facts)
  with assms Inl x show ?thesis
    by (auto simp: submitReport_def Let_def rollback_def release_def respond_def
        split: if_splits)
next
  case (Inr y)
  obtain res' c' where y: "y = (res', c')" by (cases y)
  with assms Inr have res: "res' = res" and c: "c = release c'"
    by (auto simp: submitReport_def Let_def)
  from submitReport_try_Inr [OF Inr [unfolded y res]] show ?thesis
  proof (elim disjE exE conjE)
    assume "res = respond 400 ''Missing required fields: report_id, device_id, anomalies'' NoPayload"
      and "c' = beginTransaction (getConnection d)"
    with c show ?thesis
      by (simp add: begin_facts release_def respond_def)
  next
    fix anomalies userId c1 reported_at dbReportId c2 c3 c4
    assume items: "sr_anomalies req = Items anomalies"
      and r: "resolve_userId flt (sr_user req) (the (sr_device_id req))
                (beginTransaction (getConnection d)) = Inr (userId, c1)"
      and q: "query flt
                (insert_reports (the (sr_report_id req)) userId (the (sr_device_id req))
                   reported_at
                   (length (filter (\<lambda>a. a_type a = ''pothole'') anomalies))
                   (length (filter (\<lambda>a. a_type a = ''road_anomaly'') anomalies))
                   (max 0 (100 - (int (length (filter (\<lambda>a. a_type a = ''pothole'') anomalies)) * 15
                        + int (length (filter (\<lambda>a. a_type a = ''road_anomaly'') anomalies)) * 5))))
                c1 = Inr (dbReportId, c2)"
      and p: "insert_potholes flt now dbReportId
                (filter (\<lambda>a. a_type a = ''pothole'') anomalies) c2 = Inr ((), c3)"
      and a: "insert_patchyRoads flt now dbReportId
                (filter (\<lambda>a. a_type a = ''road_anomaly'') anomalies) c3 = Inr ((), c4)"
      and c': "c' = commit c4"
      and res201: "res = respond 201 ''Report submitted successfully''
                (SubmitData (the (sr_report_id req)) dbReportId
                   (length (filter (\<lambda>a. a_type a = ''pothole'') anomalies))
                   (length (filter (\<lambda>a. a_type a = ''road_anomaly'') anomalies))
                   (max 0 (100 - (int (length (filter (\<lambda>a. a_type a = ''pothole'') anomalies)) * 15
                        + int (length (filter (\<lambda>a. a_type a = ''road_anomaly'') anomalies)) * 5)))
                   ''pending'')"
    from resolve_userId_Inr [OF r] have w1: "working c1 = d"
      by (simp add: begin_facts)
    from c c' have com: "committed c = working c4"
      by (simp add: commit_def release_def)
    from query_Inr [OF q] have
      "insert_reports (the (sr_report_id req)) userId (the (sr_device_id req))
                   reported_at
                   (length (filter (\<lambda>a. a_type a = ''pothole'') anomalies))
                   (length (filter (\<lambda>a. a_type a = ''road_anomaly'') anomalies))
                   (max 0 (100 - (int (length (filter (\<lambda>a. a_type a = ''pothole'') anomalies)) * 15
                        + int (length (filter (\<lambda>a. a_type a = ''road_anomaly'') anomalies)) * 5)))
         (working c1) = Inr (dbReportId, working c2)"
      by simp
    from insert_reports_Inr [OF this] insert_potholes_Inr [OF p] insert_patchyRoads_Inr [OF a]
      w1 com
    have counts: "length (reports (committed c)) = length (reports d) + 1"
      "length (pothole_detections (committed c))
         = length (pothole_detections d)
           + length (filter (\<lambda>a. a_type a = ''pothole'') anomalies)"
      "length (road_anomalies (committed c))
         = length (road_anomalies d)
           + length (filter (\<lambda>a. a_type a = ''road_anomaly'') anomalies)"
      by simp_all
    from res201 have "code res = 201"
      by (simp add: respond_def)
    with items w1 q p a com counts have
      "\<exists>anomalies userId c1 reported_at dbReportId c2 c3 c4.
          sr_anomalies req = Items anomalies
        \<and> working c1 = d
        \<and> query flt
             (insert_reports (the (sr_report_id req)) userId (the (sr_device_id req))
                reported_at
                (length (filter (\<lambda>a. a_type a = ''pothole'') anomalies))
                (length (filter (\<lambda>a. a_type a = ''road_anomaly'') anomalies))
                (max 0 (100 - (int (length (filter (\<lambda>a. a_type a = ''pothole'')
                                             anomalies)) * 15
                              + int (length (filter (\<lambda>a. a_type a = ''road_anomaly'')
                                               anomalies)) * 5))))
             c1 = Inr (dbReportId, c2)
        \<and> insert_potholes flt now dbReportId
             (filter (\<lambda>a. a_type a = ''pothole'') anomalies) c2 = Inr ((), c3)
        \<and> insert_patchyRoads flt now dbReportId
             (filter (\<lambda>a. a_type a = ''road_anomaly'') anomalies) c3 = Inr ((), c4)
        \<and> committed c = working c4
        \<and> length (reports (committed c)) = length (reports d) + 1
        \<and> length (pothole_detections (committed c))
            = length (pothole_detections d)
              + length (filter (\<lambda>a. a_type a = ''pothole'') anomalies)
        \<and> length (road_anomalies (committed c))
            = length (road_anomalies d)
              + length (filter (\<lambda>a. a_type a = ''road_anomaly'') anomalies)"
      by blast
    with \<open>code res = 201\<close> show ?thesis
      by simp
  qed
qed

theorem submitReport_atomic_witness:
  "(case submitReport_try (\<lambda>k. k = 10) 9 submit_request_example
           (beginTransaction (getConnection (store [] []))) of
      Inl (e, c) \<Rightarrow>
        e = ConnectionLost \<and> in_tx c \<and> length (reports (working c)) = 1
        \<and> length (pothole_detections (working c)) = 3
    | Inr _ \<Rightarrow> False)
   \<and> code (fst (submitReport (\<lambda>k. k = 10) 9 (store [] []) submit_request_example)) = 500
   \<and> committed (snd (submitReport (\<lambda>k. k = 10) 9 (store [] []) submit_request_example))
       = store [] []
   \<and> working (snd (submitReport (\<lambda>k. k = 10) 9 (store [] []) submit_request_example))
       = store [] []
   \<and> \<not> in_tx (snd (submitReport (\<lambda>k. k = 10) 9 (store [] []) submit_request_example))
   \<and> Rollback \<in> set (trace (snd (submitReport (\<lambda>k. k = 10) 9 (store [] [])
                                      submit_request_example)))
   \<and> code (fst (submitReport (\<lambda>_. False) 9 (store [] []) submit_request_example)) = 201
   \<and> length (pothole_detections (committed (snd (submitReport (\<lambda>_. False) 9 (store [] [])
                submit_request_example)))) = 3
   \<and> length (road_anomalies (committed (snd (submitReport (\<lambda>_. False) 9 (store [] [])
                submit_request_example)))) = 1"
proof -
  let ?X = "submitReport (\<lambda>k. k = 10) 9 (store [] []) submit_request_example"
  let ?Y = "submitReport (\<lambda>_. False) 9 (store [] []) submit_request_example"
  have x: "?X = (fst ?X, snd ?X)" and y: "?Y = (fst ?Y, snd ?Y)"
    by simp_all
  have pending:
    "(case submitReport_try (\<lambda>k. k = 10) 9 submit_request_example
             (beginTransaction (getConnection (store [] []))) of
        Inl (e, c) \<Rightarrow>
          e = ConnectionLost \<and> in_tx c \<and> length (reports (working c)) = 1
          \<and> length (pothole_detections (working c)) = 3
      | Inr _ \<Rightarrow> False)"
    by (simp add: eval_submit)
  have failed: "code (fst ?X) = 500"
    by (simp add: eval_submit)
  have ok: "code (fst ?Y) = 201"
    by (simp add: eval_submit)
  from submitReport_atomic [OF x] failed have rolled_back:
    "committed (snd ?X) = store [] []" "working (snd ?X) = store [] []"
    "\<not> in_tx (snd ?X)" "Rollback \<in> set (trace (snd ?X))"
    by simp_all
  from submitReport_atomic [OF y] ok obtain anomalies where
    "sr_anomalies submit_request_example = Items anomalies"
    "length (pothole_detections (committed (snd ?Y)))
       = length (pothole_detections (store [] []))
         + length (filter (\<lambda>a. a_type a = ''pothole'') anomalies)"
    "length (road_anomalies (committed (snd ?Y)))
       = length (road_anomalies (store [] []))
         + length (filter (\<lambda>a. a_type a = ''road_anomaly'') anomalies)"
    by auto
  then have "length (pothole_detections (committed (snd ?Y))) = 3"
    and "length (road_anomalies (committed (snd ?Y))) = 1"
    by (auto simp: submit_request_example_def store_def pothole_at_def road_anomaly_at_def)
  with pending failed rolled_back ok show ?thesis
    by simp
qed

lemma submitReport_201:
  assumes "submitReport flt now d req = (res, c)" and "code res = 201"
  shows "\<exists>anomalies userId reported_at dbReportId.
           truthy (sr_report_id req) \<and> truthy (sr_device_id req)
         \<and> sr_anomalies req = Items anomalies
         \<and> toMySQLDatetime now (sr_reported_at req) = Inr reported_at
         \<and> res = respond 201 ''Report submitted successfully''
                (SubmitData (the (sr_report_id req)) dbReportId
                   (length (filter (\<lambda>a. a_type a = ''pothole'') anomalies))
                   (length (filter (\<lambda>a. a_type a = ''road_anomaly'') anomalies))
                   (max 0 (100 - (int (length (filter (\<lambda>a. a_type a = ''pothole'') anomalies)) * 15
                        + int (length (filter (\<lambda>a. a_type a = ''road_anomaly'') anomalies)) * 5)))
                   ''pending'')
         \<and> the (sr_report_id req) \<notin> set (map r_report_id (reports d))
         \<and> reports (committed c) = reports d @
              [\<lparr>r_id = dbReportId, r_report_id = the (sr_report_id req), r_user_id = userId,
                r_device_id = the (sr_device_id req), r_reported_at = reported_at,
                r_total_potholes = length (filter (\<lambda>a. a_type a = ''pothole'') anomalies),
                r_total_patchy_roads
                  = length (filter (\<lambda>a. a_type a = ''road_anomaly'') anomalies),
                r_health_score
                  = max 0 (100 - (int (length (filter (\<lambda>a. a_type a = ''pothole'') anomalies)) * 15
                        + int (length (filter (\<lambda>a. a_type a = ''road_anomaly'') anomalies)) * 5)),
                r_status = ''pending''\<rparr>]
         \<and> users (committed c) = users d"
proof (cases "submitReport_try flt now req (beginTransaction (getConnection d))")
  case (Inl x)
  with assms show ?thesis
    by (auto simp: submitReport_def Let_def respond_def split: if_splits prod.splits)
next
  case (Inr y)
  obtain res' c' where y: "y = (res', c')" by (cases y)
  with assms Inr have res: "res' = res" and c: "c = release c'"
    by (auto simp: submitReport_def Let_def)
  from submitReport_try_Inr [OF Inr [unfolded y res]] show ?thesis
  proof (elim disjE exE conjE)
    assume "res = respond 400 ''Missing required fields: report_id, device_id, anomalies'' NoPayload"
    with assms(2) show ?thesis
      by (simp add: respond_def)
  next
    fix anomalies userId c1 reported_at dbReportId c2 c3 c4
    assume valid: "truthy (sr_report_id req)" "truthy (sr_device_id req)"
      and items: "sr_anomalies req = Items anomalies"
      and ts: "toMySQLDatetime now (sr_reported_at req) = Inr reported_at"
      and r: "resolve_userId flt (sr_user req) (the (sr_device_id req))
                (beginTransaction (getConnection d)) = Inr (userId, c1)"
      and q: "query flt
                (insert_reports (the (sr_report_id req)) userId (the (sr_device_id req))
                   reported_at
                   (length (filter (\<lambda>a. a_type a = ''pothole'') anomalies))
                   (length (filter (\<lambda>a. a_type a = ''road_anomaly'') anomalies))
                   (max 0 (100 - (int (length (filter (\<lambda>a. a_type a = ''pothole'') anomalies)) * 15
                        + int (length (filter (\<lambda>a. a_type a = ''road_anomaly'') anomalies)) * 5))))
                c1 = Inr (dbReportId, c2)"
      and p: "insert_potholes flt now dbReportId
                (filter (\<lambda>a. a_type a = ''pothole'') anomalies) c2 = Inr ((), c3)"
      and a: "insert_patchyRoads flt now dbReportId
                (filter (\<lambda>a. a_type a = ''road_anomaly'') anomalies) c3 = Inr ((), c4)"
      and c': "c' = commit c4"
      and res201: "res = respond 201 ''Report submitted successfully''
                (SubmitData (the (sr_report_id req)) dbReportId
                   (length (filter (\<lambda>a. a_type a = ''pothole'') anomalies))
                   (length (filter (\<lambda>a. a_type a = ''road_anomaly'') anomalies))
                   (max 0 (100 - (int (length (filter (\<lambda>a. a_type a = ''pothole'') anomalies)) * 15
                        + int (length (filter (\<lambda>a. a_type a = ''road_anomaly'') anomalies)) * 5)))
                   ''pending'')"
    from resolve_userId_Inr [OF r] have w1: "working c1 = d"
      by (simp add: begin_facts)
    from c c' have com: "committed c = working c4"
      by (simp add: commit_def release_def)
    from query_Inr [OF q] have
      "insert_reports (the (sr_report_id req)) userId (the (sr_device_id req))
                   reported_at
                   (length (filter (\<lambda>a. a_type a = ''pothole'') anomalies))
                   (length (filter (\<lambda>a. a_type a = ''road_anomaly'') anomalies))
                   (max 0 (100 - (int (length (filter (\<lambda>a. a_type a = ''pothole'') anomalies)) * 15
                        + int (length (filter (\<lambda>a. a_type a = ''road_anomaly'') anomalies)) * 5)))
         (working c1) = Inr (dbReportId, working c2)"
      by simp
    from insert_reports_Inr [OF this] insert_potholes_Inr [OF p] insert_patchyRoads_Inr [OF a]
      w1 com
    have "the (sr_report_id req) \<notin> set (map r_report_id (reports d))"
      and "reports (committed c) = reports d @
              [\<lparr>r_id = dbReportId, r_report_id = the (sr_report_id req), r_user_id = userId,
                r_device_id = the (sr_device_id req), r_reported_at = reported_at,
                r_total_potholes = length (filter (\<lambda>a. a_type a = ''pothole'') anomalies),
                r_total_patchy_roads
                  = length (filter (\<lambda>a. a_type a = ''road_anomaly'') anomalies),
                r_health_score
                  = max 0 (100 - (int (length (filter (\<lambda>a. a_type a = ''pothole'') anomalies)) * 15
                        + int (length (filter (\<lambda>a. a_type a = ''road_anomaly'') anomalies)) * 5)),
                r_status = ''pending''\<rparr>]"
      and "users (committed c) = users d"
      by simp_all
    with valid items ts res201 show ?thesis
      by blast
  qed
qed

text \<open>
  C3. A submission that is accepted, with \<open>p\<close> entries of type \<^verbatim>\<open>pothole\<close> and \<open>a\<close> entries of
  type \<^verbatim>\<open>road_anomaly\<close>, is answered with the health score \<open>max 0 (100 - 15 p - 5 a)\<close>,
  which lies between 0 and 100; the same score and counts are in the report row it stores.
\<close>

theorem submitReport_healthScore:
  assumes "submitReport flt now d req = (res, c)" and "code res = 201"
  shows "\<exists>anomalies p a dbReportId row.
           sr_anomalies req = Items anomalies
         \<and> p = length (filter (\<lambda>e. a_type e = ''pothole'') anomalies)
         \<and> a = length (filter (\<lambda>e. a_type e = ''road_anomaly'') anomalies)
         \<and> payload res
             = SubmitData (the (sr_report_id req)) dbReportId p a
                 (max 0 (100 - 15 * int p - 5 * int a)) ''pending''
         \<and> 0 \<le> max 0 (100 - 15 * int p - 5 * int a)
         \<and> max 0 (100 - 15 * int p - 5 * int a) \<le> 100
         \<and> reports (committed c) = reports d @ [row]
         \<and> r_id row = dbReportId \<and> r_total_potholes row = p \<and> r_total_patchy_roads row = a
         \<and> r_health_score row = max 0 (100 - 15 * int p - 5 * int a)"
proof -
  from submitReport_201 [OF assms] obtain anomalies userId reported_at dbReportId where
    items: "sr_anomalies req = Items anomalies"
    and res: "res = respond 201 ''Report submitted successfully''
                (SubmitData (the (sr_report_id req)) dbReportId
                   (length (filter (\<lambda>a. a_type a = ''pothole'') anomalies))
                   (length (filter (\<lambda>a. a_type a = ''road_anomaly'') anomalies))
                   (max 0 (100 - (int (length (filter (\<lambda>a. a_type a = ''pothole'') anomalies)) * 15
                        + int (length (filter (\<lambda>a. a_type a = ''road_anomaly'') anomalies)) * 5)))
                   ''pending'')"
    and rows: "reports (committed c) = reports d @
              [\<lparr>r_id = dbReportId, r_report_id = the (sr_report_id req), r_user_id = userId,
                r_device_id = the (sr_device_id req), r_reported_at = reported_at,
                r_total_potholes = length (filter (\<lambda>a. a_type a = ''pothole'') anomalies),
                r_total_patchy_roads
                  = length (filter (\<lambda>a. a_type a = ''road_anomaly'') anomalies),
                r_health_score
                  = max 0 (100 - (int (length (filter (\<lambda>a. a_type a = ''pothole'') anomalies)) * 15
                        + int (length (filter (\<lambda>a. a_type a = ''road_anomaly'') anomalies)) * 5)),
                r_status = ''pending''\<rparr>]"
    by blast
  let ?p = "length (filter (\<lambda>e. a_type e = ''pothole'') anomalies)"
  let ?a = "length (filter (\<lambda>e. a_type e = ''road_anomaly'') anomalies)"
  have eq: "max 0 (100 - (int ?p * 15 + int ?a * 5)) = max 0 (100 - 15 * int ?p - 5 * int ?a)"
    by simp
  have range: "0 \<le> max 0 (100 - 15 * int ?p - 5 * int ?a)"
    "max 0 (100 - 15 * int ?p - 5 * int ?a) \<le> 100"
    by simp_all
  from res have pay: "payload res
             = SubmitData (the (sr_report_id req)) dbReportId ?p ?a
                 (max 0 (100 - 15 * int ?p - 5 * int ?a)) ''pending''"
    by (simp add: respond_def eq)
  show ?thesis
    apply (rule exI [of _ anomalies], rule exI [of _ ?p], rule exI [of _ ?a],
           rule exI [of _ dbReportId])
    using items pay range rows eq by simp
qed

theorem submitReport_healthScore_witness:
  "code (fst (submitReport (\<lambda>_. False) 9 (store [] []) submit_request_example)) = 201
   \<and> map r_health_score (reports (committed (snd (submitReport (\<lambda>_. False) 9 (store [] [])
           submit_request_example)))) = [50]
   \<and> (\<exists>dbReportId. payload (fst (submitReport (\<lambda>_. False) 9 (store [] [])
           submit_request_example)) = SubmitData ''R1'' dbReportId 3 1 50 ''pending'')"
proof -
  let ?Y = "submitReport (\<lambda>_. False) 9 (store [] []) submit_request_example"
  have y: "?Y = (fst ?Y, snd ?Y)"
    by simp
  have ok: "code (fst ?Y) = 201"
    by (simp add: eval_submit)
  from submitReport_healthScore [OF y ok] obtain anomalies p a dbReportId row where
    items: "sr_anomalies submit_request_example = Items anomalies"
    and p: "p = length (filter (\<lambda>e. a_type e = ''pothole'') anomalies)"
    and a: "a = length (filter (\<lambda>e. a_type e = ''road_anomaly'') anomalies)"
    and pay: "payload (fst ?Y)
             = SubmitData (the (sr_report_id submit_request_example)) dbReportId p a
                 (max 0 (100 - 15 * int p - 5 * int a)) ''pending''"
    and rows: "reports (committed (snd ?Y)) = reports (store [] []) @ [row]"
      "r_health_score row = max 0 (100 - 15 * int p - 5 * int a)"
    by blast
  from items p a have "p = 3" "a = 1"
    by (auto simp: submit_request_example_def pothole_at_def road_anomaly_at_def)
  with pay rows ok show ?thesis
    by (simp add: submit_request_example_def store_def)
qed

text \<open>
  C5. A submission whose report identifier is already stored, and which gets as far as the
  insert of the report (it passes validation, its detections are an array, its date can be
  read and the server carries out its statements), is answered with 409
  \<^verbatim>\<open>Report already submitted\<close> and leaves the store as it was. In particular a submission
  that was accepted is answered so when it is sent again, and the second call changes
  nothing.
\<close>

theorem submitReport_duplicate:
  "(truthy (sr_report_id req) \<and> truthy (sr_device_id req) \<and> sr_anomalies req = Items anomalies
      \<and> sr_reported_at req \<noteq> InvalidDate
      \<and> the (sr_report_id req) \<in> set (map r_report_id (reports d))
      \<and> (\<forall>k. \<not> flt k)
    \<longrightarrow> fst (submitReport flt now d req)
            = respond 409 ''Report already submitted'' (ErrorText ''Duplicate report_id'')
        \<and> committed (snd (submitReport flt now d req)) = d)
   \<and> (submitReport first_flt first_now d req = (first_res, first_c) \<and> code first_res = 201 \<and> (\<forall>k. \<not> flt k)
    \<longrightarrow> fst (submitReport flt now (committed first_c) req)
            = respond 409 ''Report already submitted'' (ErrorText ''Duplicate report_id'')
        \<and> committed (snd (submitReport flt now (committed first_c) req)) = committed first_c)"
proof -
  have general: "fst (submitReport flt now d' req)
            = respond 409 ''Report already submitted'' (ErrorText ''Duplicate report_id'')
        \<and> committed (snd (submitReport flt now d' req)) = d'"
    if "truthy (sr_report_id req)" "truthy (sr_device_id req)" "sr_anomalies req = Items xs"
      "sr_reported_at req \<noteq> InvalidDate"
      "the (sr_report_id req) \<in> set (map r_report_id (reports d'))" "\<forall>k. \<not> flt k"
    for d' xs
    using that
    by (cases "sr_reported_at req")
      (auto simp: submitReport_def submitReport_try_def resolve_userId_def query_def Let_def
        select_users_by_device_def insert_reports_def toMySQLDatetime_def
        getConnection_def beginTransaction_def rollback_def release_def)
  have again: "fst (submitReport flt now (committed first_c) req)
            = respond 409 ''Report already submitted'' (ErrorText ''Duplicate report_id'')
        \<and> committed (snd (submitReport flt now (committed first_c) req)) = committed first_c"
    if first: "submitReport first_flt first_now d req = (first_res, first_c)" "code first_res = 201" and nf: "\<forall>k. \<not> flt k"
  proof -
    from submitReport_201 [OF first] obtain xs reported_at where
      "truthy (sr_report_id req)" "truthy (sr_device_id req)" "sr_anomalies req = Items xs"
      "toMySQLDatetime first_now (sr_reported_at req) = Inr reported_at"
      "the (sr_report_id req) \<in> set (map r_report_id (reports (committed first_c)))"
      by auto
    moreover from this have "sr_reported_at req \<noteq> InvalidDate"
      by (auto simp: toMySQLDatetime_def)
    ultimately show ?thesis
      using nf by (intro general)
  qed
  from general again show ?thesis
    by blast
qed

theorem submitReport_duplicate_witness:
  "code (fst (submitReport (\<lambda>_. False) 9 (store [] []) submit_request_example)) = 201
   \<and> fst (submitReport (\<lambda>_. False) 10
            (committed (snd (submitReport (\<lambda>_. False) 9 (store [] []) submit_request_example)))
            submit_request_example)
       = respond 409 ''Report already submitted'' (ErrorText ''Duplicate report_id'')
   \<and> committed (snd (submitReport (\<lambda>_. False) 10
            (committed (snd (submitReport (\<lambda>_. False) 9 (store [] []) submit_request_example)))
            submit_request_example))
       = committed (snd (submitReport (\<lambda>_. False) 9 (store [] []) submit_request_example))"
proof -
  let ?Y = "submitReport (\<lambda>_. False) 9 (store [] []) submit_request_example"
  have y: "?Y = (fst ?Y, snd ?Y)"
    by simp
  have ok: "code (fst ?Y) = 201"
    by (simp add: eval_submit)
  from submitReport_duplicate [where first_flt = "\<lambda>_. False" and first_now = 9 and d = "store [] []"
      and req = submit_request_example and first_res = "fst ?Y" and first_c = "snd ?Y"
      and flt = "\<lambda>_. False" and now = 10] y ok
  show ?thesis
    by simp
qed

subsection \<open>Merging into a grid cell\<close>

lemma rank_enum: "s \<in> set severity_enum \<Longrightarrow> severityOrder s = Some (rank s) \<and> 0 < rank s"
  by (auto simp: severity_enum_def rank_def severityOrder_def)



















text \<open>
  One submission with a pothole of severity \<^verbatim>\<open>High\<close> and a road anomaly of severity \<^verbatim>\<open>Low\<close>
  in the same cell, into a store without locations, leaves one row for the cell.
\<close>

lemma submitReport_example_aggregation:
  "aggregated_locations (committed (snd (submitReport (\<lambda>_. False) 9 (store [] [])
       \<lparr>sr_user = None, sr_report_id = Some ''R2'', sr_device_id = Some ''D1'',
        sr_reported_at = NoDate,
        sr_anomalies = Items [pothole_at 13 80 (Some ''High''),
                              road_anomaly_at 13 80 (Some ''Low'')]\<rparr>)))
     = [\<lparr>al_id = 1, al_grid_id = ''13.0000_80.0000'', al_latitude = ''13.0000'',
         al_longitude = ''80.0000'', al_total_potholes = 1, al_total_patchy = 1,
         al_highest_severity = ''High'', al_report_count = 2, al_first_reported_at = Some 9,
         al_last_reported_at = Some 9, al_status = ''pending'', al_verified_at = None\<rparr>]"
  by (simp add: eval_submit)

subsection \<open>The grid key\<close>

text \<open>
  Coordinates of the same sign that round to the same four decimals get the same key.
\<close>

lemma fixed4_same_rounding:
  assumes "(x < 0) = (y < 0)" and "round_dp 4 x = round_dp 4 y"
  shows "fixed4 x = fixed4 y"
proof -
  have n: "\<lfloor>\<bar>x\<bar> * 10000 + 1 / 2\<rfloor> = \<lfloor>\<bar>y\<bar> * 10000 + 1 / 2\<rfloor>"
  proof (cases "x < 0")
    case True
    then have y: "y < 0" using assms(1) by simp
    have "\<lfloor>- x * 10 ^ 4 + 1 / 2\<rfloor> = \<lfloor>- y * 10 ^ 4 + 1 / 2\<rfloor>"
      using assms(2) True y unfolding round_dp_def by simp
    moreover have "\<bar>x\<bar> = - x" "\<bar>y\<bar> = - y" using True y by simp_all
    ultimately show ?thesis by simp
  next
    case False
    then have y: "\<not> y < 0" using assms(1) by simp
    have "\<lfloor>x * 10 ^ 4 + 1 / 2\<rfloor> = \<lfloor>y * 10 ^ 4 + 1 / 2\<rfloor>"
      using assms(2) False y unfolding round_dp_def by simp
    moreover have "\<bar>x\<bar> = x" "\<bar>y\<bar> = y" using False y by simp_all
    ultimately show ?thesis by simp
  qed
  have s: "(if x < 0 then ''-'' else '''') = (if y < 0 then ''-'' else '''')"
    using assms(1) by simp
  show ?thesis
    unfolding fixed4_def n s ..
qed

lemma gridId_of_same_rounding:
  assumes "(la < 0) = (la' < 0)" and "round_dp 4 la = round_dp 4 la'"
    and "(lo < 0) = (lo' < 0)" and "round_dp 4 lo = round_dp 4 lo'"
  shows "gridId_of (Some la) (Some lo) = gridId_of (Some la') (Some lo')"
  using fixed4_same_rounding [OF assms(1,2)] fixed4_same_rounding [OF assms(3,4)]
  by (simp add: gridId_of_def toFixed4_def)

text \<open>
  C4. The key of a detection is \<open>toFixed(4)\<close> of its latitude, an underscore and
  \<open>toFixed(4)\<close> of its longitude. It is a function of the two numbers, but two coordinates
  that round to the same four decimals do not always get the same key: \<open>toFixed\<close> writes
  the sign of a negative number also when the digits round to zero. The latitudes
  \<open>-1/32768\<close> and \<open>1/32768\<close> (about three metres either side of the equator) both round
  to \<open>0.0000\<close>; at longitude 80 the first gets the key \<^verbatim>\<open>-0.0000_80.0000\<close> and the second
  \<^verbatim>\<open>0.0000_80.0000\<close>, so their detections are aggregated in two rows.
\<close>

theorem gridId_of_negative_zero:
  "round_dp 4 (- 1 / 32768) = round_dp 4 (1 / 32768)
   \<and> gridId_of (Some (- 1 / 32768)) (Some 80) = ''-0.0000_80.0000''
   \<and> gridId_of (Some (1 / 32768)) (Some 80) = ''0.0000_80.0000''"
  by (simp add: eval_fixed4)

subsection \<open>Assigning\<close>

text \<open>
  C6. At most one open assignment per location. \<open>createWorkAssignment\<close> updates the open
  assignment of a location in place, but \<open>assignToContractor\<close> and \<open>batchAssign\<close> insert a
  row whatever the table holds: on a store where location 1 has the open assignment 1, both
  leave it with the open assignments 1 and 2, while \<open>createWorkAssignment\<close> answers with
  assignment 1 and leaves that one row.
\<close>

theorem assign_inserts_second_open_assignment:
  "map wa_id (open_assignments 1 (store [location 1 ''assigned''] [assignment 1 1 ''assigned'']))
     = [1]
   \<and> fst (assignToContractor (\<lambda>_. False)
            (store [location 1 ''assigned''] [assignment 1 1 ''assigned''])
            assign_request_example)
       = respond 201 ''Assignment created successfully'' (AssignmentId 2)
   \<and> map wa_id (open_assignments 1 (committed (snd (assignToContractor (\<lambda>_. False)
            (store [location 1 ''assigned''] [assignment 1 1 ''assigned''])
            assign_request_example)))) = [1, 2]
   \<and> map wa_id (open_assignments 1 (committed (snd (batchAssign (\<lambda>_. False) 9
            (store [location 1 ''assigned''] [assignment 1 1 ''assigned''])
            \<lparr>ba_user = 1, ba_locationIds = Some [1], ba_contractorId = Some 1,
             ba_dueDate = NoDate, ba_notes = None\<rparr>)))) = [1, 2]
   \<and> fst (createWorkAssignment (\<lambda>_. False)
            (store [location 1 ''assigned''] [assignment 1 1 ''assigned''])
            assign_request_example)
       = respond 200 ''Assignment updated successfully'' (AssignmentId 1)
   \<and> map wa_id (open_assignments 1 (committed (snd (createWorkAssignment (\<lambda>_. False)
            (store [location 1 ''assigned''] [assignment 1 1 ''assigned''])
            assign_request_example)))) = [1]"
  by (simp add: assignToContractor_def assignToContractor_try_def batchAssign_def
        batchAssign_try_def createWorkAssignment_def createWorkAssignment_try_def
        assign_request_example_def eval_lifecycle)

subsection \<open>Validation\<close>

text \<open>
  C7, as the code has it. \<open>submitReport\<close> and \<open>batchVerifyLocations\<close> take a connection and
  begin a transaction before they look at the request. A request that fails validation
  (no report identifier, no device identifier or no detection collection; no or an empty
  list of location ids) is answered with status 400 before any statement is sent: no row
  is read or written and the store is as before.
\<close>

theorem validation_sends_no_statement:
  "(\<not> truthy (sr_report_id sreq) \<or> \<not> truthy (sr_device_id sreq) \<or> sr_anomalies sreq = Absent
      \<longrightarrow> submitReport flt now d sreq
            = (respond 400 ''Missing required fields: report_id, device_id, anomalies'' NoPayload,
               \<lparr>committed = d, working = d, in_tx = True,
                trace = [GetConnection, BeginTransaction, Release]\<rparr>))
   \<and> (bv_locationIds breq = None \<or> bv_locationIds breq = Some []
      \<longrightarrow> batchVerifyLocations flt now d breq
            = (respond 400 ''locationIds are required'' NoPayload,
               \<lparr>committed = d, working = d, in_tx = True,
                trace = [GetConnection, BeginTransaction, Release]\<rparr>))"
  by (auto simp: submitReport_def submitReport_try_def batchVerifyLocations_def
        batchVerifyLocations_try_def getConnection_def beginTransaction_def release_def)

theorem validation_sends_no_statement_witness:
  "submitReport (\<lambda>_. False) 9 (store [] []) submit_request_invalid
     = (respond 400 ''Missing required fields: report_id, device_id, anomalies'' NoPayload,
        \<lparr>committed = store [] [], working = store [] [], in_tx = True,
         trace = [GetConnection, BeginTransaction, Release]\<rparr>)
   \<and> batchVerifyLocations (\<lambda>_. False) 9 (store [] []) \<lparr>bv_locationIds = None, bv_notes = None\<rparr>
     = (respond 400 ''locationIds are required'' NoPayload,
        \<lparr>committed = store [] [], working = store [] [], in_tx = True,
         trace = [GetConnection, BeginTransaction, Release]\<rparr>)"
  using validation_sends_no_statement [where sreq = submit_request_invalid
      and breq = "\<lparr>bv_locationIds = None, bv_notes = None\<rparr>" and flt = "\<lambda>_. False"
      and now = 9 and d = "store [] []"]
  by (simp add: submit_request_invalid_def truthy_def)

text \<open>
  C7, as stated, fails: a submission without a report identifier is answered with 400
  after a transaction has been begun on the connection, and the connection is released
  with that transaction still open.
\<close>

theorem transaction_begun_before_validation:
  "code (fst (submitReport (\<lambda>_. False) 9 (store [] []) submit_request_invalid)) = 400
   \<and> BeginTransaction \<in> set (trace (snd (submitReport (\<lambda>_. False) 9 (store [] [])
                                             submit_request_invalid)))
   \<and> in_tx (snd (submitReport (\<lambda>_. False) 9 (store [] []) submit_request_invalid))"
  by (simp add: submitReport_def submitReport_try_def submit_request_invalid_def truthy_def
        getConnection_def beginTransaction_def release_def respond_def)

subsection \<open>Verifying\<close>

text \<open>
  When the server carries out both statements, \<open>verifyLocation\<close> on an existing location
  sets its status to \<^verbatim>\<open>verified\<close> and stamps \<^verbatim>\<open>verified_at\<close>; every assignment of the
  location whose status is \<^verbatim>\<open>assigned\<close>, \<^verbatim>\<open>in_progress\<close> or \<^verbatim>\<open>pending_verification\<close> becomes
  \<^verbatim>\<open>verified\<close> with \<^verbatim>\<open>completed_at\<close> stamped, and nothing else changes; the answer has status
  200 and the flags \<^verbatim>\<open>locationUpdated = true\<close> and \<^verbatim>\<open>assignmentUpdated\<close>, the latter false
  when the location has no such assignment. On a location that does not exist the answer
  is 404 and the store is as before.
\<close>

lemma verifyLocation_effect:
  assumes "\<forall>k. \<not> flt k"
  shows "(vr_locationId req \<in> set (map al_id (aggregated_locations d)) \<longrightarrow>
            fst (verifyLocation flt now d req)
              = respond 200 ''Work verified successfully''
                  (VerifyFlags True
                     (filter (\<lambda>w. wa_aggregated_location_id w = vr_locationId req
                                  \<and> wa_status w
                                      \<in> {''pending_verification'', ''in_progress'', ''assigned''})
                        (work_assignments d) \<noteq> []))
          \<and> committed (snd (verifyLocation flt now d req))
              = d\<lparr>aggregated_locations :=
                     map (\<lambda>r. if al_id r = vr_locationId req
                               then r\<lparr>al_status := ''verified'', al_verified_at := Some now\<rparr>
                               else r) (aggregated_locations d),
                   work_assignments :=
                     map (\<lambda>w. if wa_aggregated_location_id w = vr_locationId req
                                  \<and> wa_status w
                                      \<in> {''pending_verification'', ''in_progress'', ''assigned''}
                               then w\<lparr>wa_status := ''verified'', wa_completed_at := Some now,
                                      wa_admin_notes :=
                                        Some (or_text (vr_notes req) ''Verified from dashboard'')\<rparr>
                               else w) (work_assignments d)\<rparr>)
       \<and> (vr_locationId req \<notin> set (map al_id (aggregated_locations d)) \<longrightarrow>
            fst (verifyLocation flt now d req) = respond 404 ''Location not found'' NoPayload
          \<and> committed (snd (verifyLocation flt now d req)) = d)"
proof (cases "vr_locationId req \<in> set (map al_id (aggregated_locations d))")
  case True
  then have "filter (\<lambda>r. al_id r = vr_locationId req) (aggregated_locations d) \<noteq> []"
    by (auto simp: filter_empty_conv)
  with True assms show ?thesis
    by (simp add: verifyLocation_def verifyLocation_try_def query_def Let_def pool_def
          update_work_assignments_def work_assignments_columns_def
          update_aggregated_locations_where_id_def)
next
  case False
  then have none: "\<forall>r \<in> set (aggregated_locations d). \<not> al_id r = vr_locationId req"
    by (force simp: image_iff)
  then have "filter (\<lambda>r. al_id r = vr_locationId req) (aggregated_locations d) = []"
    by (simp add: filter_empty_conv)
  with False assms map_if_unmatched [OF none] show ?thesis
    by (simp add: verifyLocation_def verifyLocation_try_def query_def Let_def pool_def
          update_aggregated_locations_where_id_def)
qed

lemma verifyLocation_effect_example:
  "fst (verifyLocation (\<lambda>_. False) 9
          (store [location 1 ''pending_verification''] [assignment 1 1 ''pending_verification''])
          \<lparr>vr_locationId = 1, vr_notes = None\<rparr>)
     = respond 200 ''Work verified successfully'' (VerifyFlags True True)
   \<and> fst (verifyLocation (\<lambda>_. False) 9 (store [location 1 ''pending''] [])
          \<lparr>vr_locationId = 1, vr_notes = None\<rparr>)
     = respond 200 ''Work verified successfully'' (VerifyFlags True False)
   \<and> committed (snd (verifyLocation (\<lambda>_. False) 9 (store [location 1 ''pending''] [])
          \<lparr>vr_locationId = 1, vr_notes = None\<rparr>))
     = store [(location 1 ''verified'')\<lparr>al_verified_at := Some 9\<rparr>] []
   \<and> fst (verifyLocation (\<lambda>_. False) 9 (store [location 1 ''pending''] [])
          \<lparr>vr_locationId = 3, vr_notes = None\<rparr>)
     = respond 404 ''Location not found'' NoPayload"
proof -
  have nf: "\<forall>k::nat. \<not> (\<lambda>_. False) k"
    by simp
  let ?d = "store [location 1 ''pending_verification''] [assignment 1 1 ''pending_verification'']"
  let ?e = "store [location 1 ''pending''] []"
  from verifyLocation_effect [OF nf, of "\<lparr>vr_locationId = 1, vr_notes = None\<rparr>" ?d 9]
    verifyLocation_effect [OF nf, of "\<lparr>vr_locationId = 1, vr_notes = None\<rparr>" ?e 9]
    verifyLocation_effect [OF nf, of "\<lparr>vr_locationId = 3, vr_notes = None\<rparr>" ?e 9]
  show ?thesis
    by (simp add: store_def location_def assignment_def or_text_def truthy_def)
qed

text \<open>
  The administrator's \<open>verifyWork\<close>, the handler of the route
  \<^verbatim>\<open>POST /verify/:locationId\<close>, looks up nothing: when the server carries out both
  statements it answers 200 for every location id, and of the assignments of the location
  it moves those in \<^verbatim>\<open>in_progress\<close>, to \<^verbatim>\<open>completed\<close>.
\<close>

lemma verifyWork_effect:
  assumes "\<forall>k. \<not> flt k"
  shows "fst (verifyWork flt now d req) = respond 200 ''Work verified successfully'' NoPayload
       \<and> committed (snd (verifyWork flt now d req))
           = d\<lparr>aggregated_locations :=
                  map (\<lambda>r. if al_id r = vr_locationId req
                            then r\<lparr>al_status := ''verified'', al_verified_at := Some now\<rparr>
                            else r) (aggregated_locations d),
                work_assignments :=
                  map (\<lambda>w. if wa_aggregated_location_id w = vr_locationId req
                               \<and> wa_status w = ''in_progress''
                            then w\<lparr>wa_status := ''completed'', wa_completed_at := Some now,
                                   wa_admin_notes := vr_notes req\<rparr>
                            else w) (work_assignments d)\<rparr>"
  using assms
  by (simp add: verifyWork_def verifyWork_try_def query_def Let_def pool_def
        update_work_assignments_def work_assignments_columns_def
        update_aggregated_locations_where_id_def)

text \<open>
  C8. Verifying a location closes its assignments in \<^verbatim>\<open>assigned\<close>, \<^verbatim>\<open>in_progress\<close> and
  \<^verbatim>\<open>pending_verification\<close> as \<^verbatim>\<open>verified\<close>, and a location that does not exist is reported
  not found. \<open>verifyLocation\<close> does so, \<open>verifyWork\<close> does not. On a store where location 1
  awaits verification with its assignment 1 in \<^verbatim>\<open>pending_verification\<close>, \<open>verifyWork\<close>
  answers 200 and sets the location to \<^verbatim>\<open>verified\<close>, but the assignment stays in
  \<^verbatim>\<open>pending_verification\<close>; an assignment in \<^verbatim>\<open>assigned\<close> stays as it is too, and one in
  \<^verbatim>\<open>in_progress\<close> becomes \<^verbatim>\<open>completed\<close>, not \<^verbatim>\<open>verified\<close>. For location 7, which the store
  does not have, \<open>verifyWork\<close> answers 200. On the same store \<open>verifyLocation\<close> moves the
  assignment to \<^verbatim>\<open>verified\<close> and answers 404 for location 7.
\<close>

theorem verifyWork_leaves_assignments_open:
  "fst (verifyWork (\<lambda>_. False) 9
          (store [location 1 ''pending_verification''] [assignment 1 1 ''pending_verification''])
          \<lparr>vr_locationId = 1, vr_notes = None\<rparr>)
     = respond 200 ''Work verified successfully'' NoPayload
   \<and> committed (snd (verifyWork (\<lambda>_. False) 9
          (store [location 1 ''pending_verification''] [assignment 1 1 ''pending_verification''])
          \<lparr>vr_locationId = 1, vr_notes = None\<rparr>))
     = store [(location 1 ''verified'')\<lparr>al_verified_at := Some 9\<rparr>]
         [assignment 1 1 ''pending_verification'']
   \<and> committed (snd (verifyWork (\<lambda>_. False) 9
          (store [location 1 ''assigned''] [assignment 1 1 ''assigned''])
          \<lparr>vr_locationId = 1, vr_notes = None\<rparr>))
     = store [(location 1 ''verified'')\<lparr>al_verified_at := Some 9\<rparr>]
         [assignment 1 1 ''assigned'']
   \<and> committed (snd (verifyWork (\<lambda>_. False) 9
          (store [location 1 ''assigned''] [assignment 1 1 ''in_progress''])
          \<lparr>vr_locationId = 1, vr_notes = None\<rparr>))
     = store [(location 1 ''verified'')\<lparr>al_verified_at := Some 9\<rparr>]
         [(assignment 1 1 ''completed'')\<lparr>wa_completed_at := Some 9\<rparr>]
   \<and> fst (verifyWork (\<lambda>_. False) 9
          (store [location 1 ''pending_verification''] [assignment 1 1 ''pending_verification''])
          \<lparr>vr_locationId = 7, vr_notes = None\<rparr>)
     = respond 200 ''Work verified successfully'' NoPayload
   \<and> committed (snd (verifyLocation (\<lambda>_. False) 9
          (store [location 1 ''pending_verification''] [assignment 1 1 ''pending_verification''])
          \<lparr>vr_locationId = 1, vr_notes = None\<rparr>))
     = store [(location 1 ''verified'')\<lparr>al_verified_at := Some 9\<rparr>]
         [(assignment 1 1 ''verified'')
            \<lparr>wa_completed_at := Some 9, wa_admin_notes := Some ''Verified from dashboard''\<rparr>]
   \<and> fst (verifyLocation (\<lambda>_. False) 9
          (store [location 1 ''pending_verification''] [assignment 1 1 ''pending_verification''])
          \<lparr>vr_locationId = 7, vr_notes = None\<rparr>)
     = respond 404 ''Location not found'' NoPayload"
  by (simp add: verifyWork_def verifyWork_try_def verifyLocation_def verifyLocation_try_def
        eval_lifecycle)

subsection \<open>Rejecting a verification\<close>

text \<open>
  C9, as the code has it. When the server carries out both statements,
  \<open>rejectVerification\<close> moves every assignment of the location that is in
  \<^verbatim>\<open>pending_verification\<close> back to \<^verbatim>\<open>in_progress\<close> with the reason as its admin note, sets
  the status of the location to \<^verbatim>\<open>assigned\<close> whether or not there was such an assignment,
  changes nothing else and answers with status 200.
\<close>

theorem rejectVerification_effect:
  assumes "\<forall>k. \<not> flt k"
  shows "fst (rejectVerification flt d req)
           = respond 200 ''Verification rejected, sent back to contractor'' NoPayload
       \<and> committed (snd (rejectVerification flt d req))
           = d\<lparr>work_assignments :=
                  map (\<lambda>w. if wa_aggregated_location_id w = rj_locationId req
                               \<and> wa_status w = ''pending_verification''
                            then w\<lparr>wa_status := ''in_progress'', wa_admin_notes := rj_reason req\<rparr>
                            else w) (work_assignments d),
                aggregated_locations :=
                  map (\<lambda>r. if al_id r = rj_locationId req then r\<lparr>al_status := ''assigned''\<rparr>
                            else r) (aggregated_locations d)\<rparr>"
  using assms
  by (simp add: rejectVerification_def rejectVerification_try_def query_def Let_def pool_def
        update_work_assignments_def work_assignments_columns_def
        update_aggregated_locations_where_id_def)

theorem rejectVerification_effect_witness:
  "fst (rejectVerification (\<lambda>_. False)
          (store [location 1 ''pending_verification''] [assignment 1 1 ''pending_verification''])
          \<lparr>rj_locationId = 1, rj_reason = Some ''redo''\<rparr>)
     = respond 200 ''Verification rejected, sent back to contractor'' NoPayload
   \<and> committed (snd (rejectVerification (\<lambda>_. False)
          (store [location 1 ''pending_verification''] [assignment 1 1 ''pending_verification''])
          \<lparr>rj_locationId = 1, rj_reason = Some ''redo''\<rparr>))
     = store [location 1 ''assigned'']
         [(assignment 1 1 ''in_progress'')\<lparr>wa_admin_notes := Some ''redo''\<rparr>]"
proof -
  have nf: "\<forall>k::nat. \<not> (\<lambda>_. False) k"
    by simp
  from rejectVerification_effect [OF nf,
      of "store [location 1 ''pending_verification''] [assignment 1 1 ''pending_verification'']"
         "\<lparr>rj_locationId = 1, rj_reason = Some ''redo''\<rparr>"]
  show ?thesis
    by (simp add: store_def location_def assignment_def)
qed

text \<open>
  C9, as stated, fails: on a verified location without any assignment the operation is
  no silent no-op, it sets the status of the location back to \<^verbatim>\<open>assigned\<close>.
\<close>

theorem rejectVerification_not_noop:
  "code (fst (rejectVerification (\<lambda>_. False) (store [location 1 ''verified''] [])
            \<lparr>rj_locationId = 1, rj_reason = Some ''redo''\<rparr>)) = 200
   \<and> filter (\<lambda>w. wa_status w = ''pending_verification'')
        (work_assignments (store [location 1 ''verified''] [])) = []
   \<and> map al_status (aggregated_locations (store [location 1 ''verified''] [])) = [''verified'']
   \<and> map al_status (aggregated_locations (committed (snd (rejectVerification (\<lambda>_. False)
        (store [location 1 ''verified''] []) \<lparr>rj_locationId = 1, rj_reason = Some ''redo''\<rparr>))))
      = [''assigned'']"
  by (simp add: rejectVerification_def rejectVerification_try_def eval_lifecycle)

subsection \<open>The contractor's job update\<close>

text \<open>
  C10. \<open>updateJobStatus\<close> never changes the store. For a valid status and a job of the
  contractor profile of the caller its answer has status 500: the \<^verbatim>\<open>UPDATE\<close> names the
  column \<^verbatim>\<open>completion_date\<close>, which \<^verbatim>\<open>work_assignments\<close> does not have, so the statement
  fails (when the server carries out the statements before it, with
  \<^verbatim>\<open>ER_BAD_FIELD_ERROR\<close>) and the statement that would set the location to \<^verbatim>\<open>fixed\<close> is
  never sent.
\<close>

theorem updateJobStatus_fails:
  assumes "jr_status req = Some status" and "status \<in> set validStatuses"
    and "filter (\<lambda>k. c_user_id k = Some (jr_user req)) (contractors d) = contractor # others"
    and "filter (\<lambda>w. wa_id w = jr_jobId req \<and> wa_contractor_id w = c_id contractor)
           (work_assignments d) \<noteq> []"
  shows "code (fst (updateJobStatus flt now d req)) = 500
       \<and> committed (snd (updateJobStatus flt now d req)) = d
       \<and> ((\<forall>k. \<not> flt k) \<longrightarrow>
            fst (updateJobStatus flt now d req)
              = respond 500 ''Failed to update job'' (ErrorCause ER_BAD_FIELD_ERROR))"
  using assms unfolding updateJobStatus_def updateJobStatus_try_def
  by (auto simp: query_def Let_def pool_def select_contractors_by_user_def select_job_def
        update_work_assignments_def work_assignments_columns_def respond_def issued_def
      split: option.splits sum.splits prod.splits list.splits if_splits)

theorem updateJobStatus_fails_witness:
  "code (fst (updateJobStatus (\<lambda>_. False) 9
        (store [location 1 ''assigned''] [assignment 1 1 ''in_progress''])
        job_request_example)) = 500
   \<and> committed (snd (updateJobStatus (\<lambda>_. False) 9
        (store [location 1 ''assigned''] [assignment 1 1 ''in_progress''])
        job_request_example))
      = store [location 1 ''assigned''] [assignment 1 1 ''in_progress'']
   \<and> fst (updateJobStatus (\<lambda>_. False) 9
        (store [location 1 ''assigned''] [assignment 1 1 ''in_progress''])
        job_request_example)
      = respond 500 ''Failed to update job'' (ErrorCause ER_BAD_FIELD_ERROR)"
proof -
  let ?d = "store [location 1 ''assigned''] [assignment 1 1 ''in_progress'']"
  have 1: "jr_status job_request_example = Some ''completed''"
    by (simp add: job_request_example_def)
  have 2: "''completed'' \<in> set validStatuses"
    by (simp add: validStatuses_def)
  have 3: "filter (\<lambda>k. c_user_id k = Some (jr_user job_request_example)) (contractors ?d)
             = \<lparr>c_id = 1, c_user_id = Some 2, c_is_active = True\<rparr> # []"
    by (simp add: job_request_example_def store_def)
  have 4: "filter (\<lambda>w. wa_id w = jr_jobId job_request_example
                     \<and> wa_contractor_id w
                         = c_id \<lparr>c_id = 1, c_user_id = Some 2, c_is_active = True\<rparr>)
             (work_assignments ?d) \<noteq> []"
    by (simp add: job_request_example_def store_def assignment_def)
  from updateJobStatus_fails [OF 1 2 3 4, of "\<lambda>_. False" 9] show ?thesis
    by (simp add: respond_def)
qed

end
